theory Spec2Isabelle
  imports Main "HOL-Library.Sublist"
begin

section \<open>JavaScript values the program handles\<close>

text \<open>
  A value that is thrown, or with which a promise is rejected.  The orchestrator's
  \<open>catch\<close> distinguishes instances of \<open>Error\<close> (whose \<open>message\<close> it shows) from any
  other value.  \<open>TypeError\<close> is what the engine raises on a property access on
  \<open>undefined\<close>; it is an instance of \<open>Error\<close> with an engine-specific message.
  \<open>ProgressEvent\<close> is what \<open>FileReader.onerror\<close> delivers; \<open>Opaque\<close> is any other
  non-\<open>Error\<close> value.
\<close>

datatype thrown = Error string | TypeError string | ProgressEvent | Opaque string

fun instanceofError :: "thrown \<Rightarrow> bool" where
  "instanceofError (Error m) = True"
| "instanceofError (TypeError m) = True"
| "instanceofError ProgressEvent = False"
| "instanceofError (Opaque v) = False"

fun message :: "thrown \<Rightarrow> string" where
  "message (Error m) = m"
| "message (TypeError m) = m"
| "message ProgressEvent = []"
| "message (Opaque v) = []"

text \<open>
  A promise as the awaiting code observes it: it never settles, it is rejected with a
  reason, or it is fulfilled with a value.
\<close>

datatype 'a promise = Pending | Rejected thrown | Fulfilled 'a

section \<open>Files and the encoder (\<open>App.tsx\<close>, \<open>fileToBase64\<close>)\<close>

record jsfile =
  fname :: string
  ftype :: string

text \<open>
  \<open>String.prototype.split\<close> with a one-character separator: the pieces between the
  separators, in order; a string without the separator is its own single piece.
\<close>

fun split :: "char \<Rightarrow> string \<Rightarrow> string list" where
  "split sep [] = [[]]"
| "split sep (c # cs) =
     (if c = sep then [] # split sep cs
      else (case split sep cs of [] \<Rightarrow> [[c]] | p # ps \<Rightarrow> (c # p) # ps))"

text \<open>Indexing an array: \<open>None\<close> is JavaScript's \<open>undefined\<close>, read out of range.\<close>

definition at_index :: "'a list \<Rightarrow> nat \<Rightarrow> 'a option" where
  "at_index xs i = (if i < length xs then Some (xs ! i) else None)"

definition startsWith :: "string \<Rightarrow> string \<Rightarrow> bool" where
  "startsWith s p = prefix p s"


section \<open>The remote service and its messages (\<open>services/geminiService\<close>)\<close>

text \<open>
  The SDK's message types are declared outside the repository.  They are modelled as
  far as the code reads or writes them: inline data is a media type with a payload, a
  request part is inline data or text, and a response has its \<open>text\<close> and an optional
  list of candidates, each with optional content holding an optional list of parts.
  The payload of a request's inline data may be \<open>undefined\<close> (\<open>None\<close>), because the
  encoder can produce that; the payload of a response's inline data is a string, as
  the declared result type \<open>Promise<string>\<close> of the code that returns it says.
\<close>

record 'd blob =
  mimeType :: string
  data :: 'd

datatype req_part = InlineData "string option blob" | Text string

datatype modality = IMAGE

datatype config =
    JsonConfig string "(string \<times> string) list" "string list"
  | ModalityConfig "modality list"

record request =
  model :: string
  contents :: "req_part list"
  config :: config

record part =
  inlineData :: "string blob option"
  part_text :: "string option"

record content =
  parts :: "part list option"

record candidate =
  content :: "content option"

record response =
  response_text :: string
  candidates :: "candidate list option"

text \<open>
  The world outside the program.  \<open>readAsDataURL\<close> is what a \<open>FileReader\<close> delivers for
  a file (\<open>onload\<close> with the result, \<open>onerror\<close> with the event, or neither);
  \<open>createObjectURL\<close> is the browser's; \<open>generateContent req k\<close> is the remote service's
  answer to the \<open>k\<close>-th call issued with request \<open>req\<close> (the four fusion calls carry the
  same request and may be answered differently); \<open>settle_time k\<close> is the moment at
  which the \<open>k\<close>-th of the parallel calls settles.
\<close>

record env =
  readAsDataURL :: "jsfile \<Rightarrow> string promise"
  createObjectURL :: "jsfile \<Rightarrow> string"
  generateContent :: "request \<Rightarrow> nat \<Rightarrow> response promise"
  settle_time :: "nat \<Rightarrow> nat"

text \<open>Operations the program starts in the outside world, in the order it starts them.\<close>

datatype op = ReadAsDataURL jsfile | GenerateContent request nat

text \<open>
  \<open>fileToBase64\<close>: start the read; on \<open>onload\<close> resolve with
  \<open>result.split(',')[1]\<close>, on \<open>onerror\<close> reject with the event.
\<close>

definition fileToBase64 :: "env \<Rightarrow> jsfile \<Rightarrow> op list \<times> string option promise" where
  "fileToBase64 e f =
     ([ReadAsDataURL f],
      (case readAsDataURL e f of
         Pending \<Rightarrow> Pending
       | Rejected ev \<Rightarrow> Rejected ev
       | Fulfilled result \<Rightarrow> Fulfilled (at_index (split (CHR '','') result) 1)))"

subsection \<open>\<open>generatePromptFromImage\<close>\<close>

definition style_schema :: "(string \<times> string) list" where
  "style_schema =
     [(''style'', ''e.g., 'photorealistic', 'oil painting', 'anime', 'art deco'' @ [CHR 0x27]),
      (''subject'', ''A detailed description of the main subject and background elements.''),
      (''composition'', ''e.g., 'centered', 'rule of thirds', 'dynamic angle'' @ [CHR 0x27]),
      (''lighting'', ''e.g., 'soft morning light', 'dramatic backlighting', 'neon glow'' @ [CHR 0x27]),
      (''colors'', ''Description of the color palette, e.g., 'warm palette with dominant oranges and yellows'.''),
      (''mood'', ''The overall mood or feeling, e.g., 'serene', 'nostalgic', 'energetic'.'')]"

definition required_fields :: "string list" where
  "required_fields = [''style'', ''subject'', ''composition'', ''lighting'', ''colors'', ''mood'']"

definition style_instruction :: string where
  "style_instruction = ''Analyze this image in extreme detail. Create a JSON object describing its artistic style, subject, composition, lighting, color palette, and mood. This JSON will be used as a style guide for another AI to generate a new image.''"

definition style_request :: "string option \<Rightarrow> string \<Rightarrow> request" where
  "style_request imageBase64 mime =
     \<lparr>model = ''gemini-2.5-flash'',
      contents = [InlineData \<lparr>mimeType = mime, data = imageBase64\<rparr>, Text style_instruction],
      config = JsonConfig ''application/json'' style_schema required_fields\<rparr>"

definition style_failed :: string where
  "style_failed = ''Failed to analyze the reference image. The content may have been blocked.''"

text \<open>
  One remote call; its \<open>text\<close> is returned as it is.  Whatever the call throws is
  replaced by one \<open>Error\<close> with a fixed message.
\<close>

definition generatePromptFromImage :: "env \<Rightarrow> string option \<Rightarrow> string \<Rightarrow> op list \<times> string promise" where
  "generatePromptFromImage e imageBase64 mime =
     (let req = style_request imageBase64 mime in
      ([GenerateContent req 0],
       (case generateContent e req 0 of
          Pending \<Rightarrow> Pending
        | Rejected err \<Rightarrow> Rejected (Error style_failed)
        | Fulfilled r \<Rightarrow> Fulfilled (response_text r))))"

subsection \<open>\<open>generateFusedImages\<close>\<close>

definition finalPrompt :: "string \<Rightarrow> string \<Rightarrow> string" where
  "finalPrompt stylePrompt ratio =
     ''Instructions:\<newline>1.  **Primary Goal:** Recreate the person from the provided image within a new setting.\<newline>2.  **Person Replication:** The person's face, body, and clothing must be an EXACT replica of the person in the provided image. DO NOT change their appearance in any way. This is the most important rule.\<newline>3.  **New Scene:** Generate a new background and scene that strictly adheres to the style guide below.\<newline>4.  **Integration:** Seamlessly blend the person into the new scene, ensuring lighting and shadows on the person match the new environment.\<newline>5.  **Aspect Ratio:** The final image must have an aspect ratio of ''
     @ ratio @ ''.\<newline>\<newline>**Style Guide (for the new scene):**\<newline>'' @ stylePrompt"

definition fusion_request :: "string \<Rightarrow> string option \<Rightarrow> string \<Rightarrow> string \<Rightarrow> request" where
  "fusion_request stylePrompt subjectImageBase64 subjectMimeType ratio =
     \<lparr>model = ''gemini-2.5-flash-image'',
      contents = [InlineData \<lparr>mimeType = subjectMimeType, data = subjectImageBase64\<rparr>,
                  Text (finalPrompt stylePrompt ratio)],
      config = ModalityConfig [IMAGE]\<rparr>"

definition no_image_data :: string where
  "no_image_data = ''Image generation failed, no image data found in response.''"

definition fusion_failed :: string where
  "fusion_failed = ''Failed to generate the final images. The content may have been blocked or the model failed.''"

text \<open>
  \<open>response.candidates[0].content.parts\<close>: each access on \<open>undefined\<close>, and iterating
  \<open>undefined\<close>, raises a \<open>TypeError\<close>.
\<close>

definition undefined_access :: thrown where
  "undefined_access = TypeError ''Cannot read properties of undefined''"

definition response_parts :: "response \<Rightarrow> thrown + part list" where
  "response_parts r =
     (case candidates r of
        None \<Rightarrow> Inl undefined_access
      | Some [] \<Rightarrow> Inl undefined_access
      | Some (c # cs) \<Rightarrow>
          (case content c of
             None \<Rightarrow> Inl undefined_access
           | Some ct \<Rightarrow>
               (case parts ct of
                  None \<Rightarrow> Inl undefined_access
                | Some ps \<Rightarrow> Inr ps)))"

text \<open>The \<open>for\<close> loop over the parts, and the \<open>throw\<close> after it.\<close>

fun scan_parts :: "part list \<Rightarrow> thrown + string" where
  "scan_parts [] = Inl (Error no_image_data)"
| "scan_parts (p # ps) =
     (case inlineData p of
        Some b \<Rightarrow> Inr (data b)
      | None \<Rightarrow> scan_parts ps)"

text \<open>
  \<open>generateSingleImage\<close>, the closure called four times; \<open>k\<close> says which of the calls
  it is.
\<close>

definition generateSingleImage :: "env \<Rightarrow> request \<Rightarrow> nat \<Rightarrow> string promise" where
  "generateSingleImage e req k =
     (case generateContent e req k of
        Pending \<Rightarrow> Pending
      | Rejected err \<Rightarrow> Rejected err
      | Fulfilled r \<Rightarrow>
          (case response_parts r of
             Inl err \<Rightarrow> Rejected err
           | Inr ps \<Rightarrow>
               (case scan_parts ps of
                  Inl err \<Rightarrow> Rejected err
                | Inr d \<Rightarrow> Fulfilled d)))"

text \<open>
  \<open>Promise.all\<close>, as the language defines it: the result array has one slot for each
  input promise; a fulfilment stores its value in the slot of its own index, and the
  result is fulfilled with the array once every slot is filled; the first rejection
  to arrive rejects the result.  \<open>all_settle\<close> takes the slots and the settlements in
  the order they arrive.
\<close>

fun all_settle :: "'a option list \<Rightarrow> (nat \<times> 'a promise) list \<Rightarrow> 'a list promise" where
  "all_settle slots [] = Pending"
| "all_settle slots ((i, Pending) # evs) = all_settle slots evs"
| "all_settle slots ((i, Rejected err) # evs) = Rejected err"
| "all_settle slots ((i, Fulfilled v) # evs) =
     (let slots' = slots[i := Some v] in
      if list_all (\<lambda>s. s \<noteq> None) slots' then Fulfilled (map the slots')
      else all_settle slots' evs)"

definition promise_all :: "(nat \<Rightarrow> nat) \<Rightarrow> 'a promise list \<Rightarrow> 'a list promise" where
  "promise_all t ps =
     (if ps = [] then Fulfilled []
      else all_settle (replicate (length ps) None)
             (map (\<lambda>i. (i, ps ! i)) (sort_key t [0..<length ps])))"

text \<open>
  The four calls are started, one after the other, before the \<open>try\<close>; \<open>Promise.all\<close>
  is awaited inside it, and whatever it rejects with is replaced by one \<open>Error\<close> with
  a fixed message.
\<close>

definition generateFusedImages ::
  "env \<Rightarrow> string \<Rightarrow> string option \<Rightarrow> string \<Rightarrow> string \<Rightarrow> op list \<times> string list promise" where
  "generateFusedImages e stylePrompt subjectImageBase64 subjectMimeType ratio =
     (let req = fusion_request stylePrompt subjectImageBase64 subjectMimeType ratio;
          imagePromises = [generateSingleImage e req 0, generateSingleImage e req 1,
                           generateSingleImage e req 2, generateSingleImage e req 3]
      in ([GenerateContent req 0, GenerateContent req 1,
           GenerateContent req 2, GenerateContent req 3],
          (case promise_all (settle_time e) imagePromises of
             Pending \<Rightarrow> Pending
           | Rejected err \<Rightarrow> Rejected (Error fusion_failed)
           | Fulfilled base64Images \<Rightarrow> Fulfilled base64Images)))"

section \<open>The orchestrator (\<open>App.tsx\<close>)\<close>

record uploaded =
  the_file :: jsfile
  url :: string

record app_state =
  referenceImage :: "uploaded option"
  subjectImage :: "uploaded option"
  generatedImages :: "string list option"
  isLoading :: bool
  error :: "string option"
  progressMessage :: string
  aspectRatio :: string

definition initial_state :: app_state where
  "initial_state =
     \<lparr>referenceImage = None, subjectImage = None, generatedImages = None,
      isLoading = False, error = None, progressMessage = [], aspectRatio = ''1:1''\<rparr>"

definition handleReferenceImageUpload :: "env \<Rightarrow> jsfile \<Rightarrow> app_state \<Rightarrow> app_state" where
  "handleReferenceImageUpload e f st =
     st\<lparr>referenceImage := Some \<lparr>the_file = f, url = createObjectURL e f\<rparr>,
        generatedImages := None,
        error := None\<rparr>"

definition handleSubjectImageUpload :: "env \<Rightarrow> jsfile \<Rightarrow> app_state \<Rightarrow> app_state" where
  "handleSubjectImageUpload e f st =
     st\<lparr>subjectImage := Some \<lparr>the_file = f, url = createObjectURL e f\<rparr>,
        generatedImages := None,
        error := None\<rparr>"

definition missing_image :: string where
  "missing_image = ''Please upload both a reference and a subject image.''"

definition step1 :: string where
  "step1 = ''Step 1/2: Analyzing reference image for style...''"

definition step2 :: string where
  "step2 = ''Step 2/2: Fusing images and generating 4 new versions...''"

definition unknown_error :: string where
  "unknown_error = ''An unknown error occurred during image generation.''"

definition png_prefix :: string where
  "png_prefix = ''data:image/png;base64,''"

text \<open>
  One call of \<open>handleGenerateClick\<close>: the state it leaves, and the operations it
  started, each with the state that was set when it started (the state on display
  while the operation is awaited).
\<close>

record run =
  final :: app_state
  trace :: "(app_state \<times> op) list"

text \<open>The \<open>catch\<close> and \<open>finally\<close> blocks.\<close>

definition finally_block :: "app_state \<Rightarrow> app_state" where
  "finally_block st = st\<lparr>isLoading := False, progressMessage := []\<rparr>"

definition catch_block :: "thrown \<Rightarrow> app_state \<Rightarrow> app_state" where
  "catch_block err st =
     finally_block (st\<lparr>error := Some (if instanceofError err then message err else unknown_error)\<rparr>)"

text \<open>
  \<open>await\<close> inside the \<open>try\<close>: the operations \<open>ops\<close> were started in state \<open>st\<close> with the
  trace \<open>tr\<close> so far.  A promise that never settles leaves the run where it is, a
  rejection goes to \<open>catch\<close>, a fulfilment continues with \<open>k\<close>.
\<close>

definition await :: "app_state \<Rightarrow> (app_state \<times> op) list \<Rightarrow> op list \<times> 'a promise
    \<Rightarrow> ((app_state \<times> op) list \<Rightarrow> 'a \<Rightarrow> run) \<Rightarrow> run" where
  "await st tr call k =
     (let tr' = tr @ map (Pair st) (fst call) in
      case snd call of
        Pending \<Rightarrow> \<lparr>final = st, trace = tr'\<rparr>
      | Rejected err \<Rightarrow> \<lparr>final = catch_block err st, trace = tr'\<rparr>
      | Fulfilled v \<Rightarrow> k tr' v)"

definition handleGenerateClick :: "env \<Rightarrow> app_state \<Rightarrow> run" where
  "handleGenerateClick e st =
     (case (referenceImage st, subjectImage st) of
        (Some reference, Some subject) \<Rightarrow>
          (let st1 = st\<lparr>isLoading := True, error := None, generatedImages := None,
                        progressMessage := step1\<rparr> in
           await st1 [] (fileToBase64 e (the_file reference)) (\<lambda>tr1 referenceImageBase64.
           await st1 tr1 (generatePromptFromImage e referenceImageBase64
                            (ftype (the_file reference))) (\<lambda>tr2 stylePrompt.
           let st2 = st1\<lparr>progressMessage := step2\<rparr> in
           await st2 tr2 (fileToBase64 e (the_file subject)) (\<lambda>tr3 subjectImageBase64.
           await st2 tr3 (generateFusedImages e stylePrompt subjectImageBase64
                            (ftype (the_file subject)) (aspectRatio st)) (\<lambda>tr4 newImageBase64Array.
           \<lparr>final = finally_block (st2\<lparr>generatedImages :=
                         Some (map (\<lambda>base64. png_prefix @ base64) newImageBase64Array)\<rparr>),
            trace = tr4\<rparr>)))))
      | _ \<Rightarrow> \<lparr>final = st\<lparr>error := Some missing_image\<rparr>, trace = []\<rparr>)"

section \<open>The upload control (\<open>components/ImageUploader\<close>)\<close>

text \<open>
  \<open>handleFileChange\<close>: \<open>files\<close> is \<open>event.target.files\<close> (\<open>None\<close> when it is null), and
  \<open>onImageUpload\<close> is the callback the orchestrator passes, acting on its state.
\<close>

definition handleFileChange :: "(jsfile \<Rightarrow> 's \<Rightarrow> 's) \<Rightarrow> jsfile list option \<Rightarrow> 's \<Rightarrow> 's" where
  "handleFileChange onImageUpload files st =
     (case files of
        Some (f # fs) \<Rightarrow> if startsWith (ftype f) ''image/'' then onImageUpload f st else st
      | _ \<Rightarrow> st)"

section \<open>A generated image (\<open>components/GeneratedImage.tsx\<close>)\<close>

text \<open>A number in a template literal: its decimal digits.\<close>

fun show_nat :: "nat \<Rightarrow> string" where
  "show_nat n =
     (if n < 10 then [''0123456789'' ! n]
      else show_nat (n div 10) @ [''0123456789'' ! (n mod 10)])"

declare show_nat.simps [simp del]

record link =
  href :: string
  download :: string

definition handleDownload :: "string \<Rightarrow> nat \<Rightarrow> link" where
  "handleDownload src index =
     \<lparr>href = src, download = ''ai-fused-image-'' @ show_nat (index + 1) @ ''.png''\<rparr>"

text \<open>
  The gallery: shown when there are generated images and no run is loading; one
  \<open>GeneratedImage\<close> for each, with its \<open>src\<close> and its index.
\<close>

definition gallery :: "app_state \<Rightarrow> (string \<times> nat) list" where
  "gallery st =
     (case generatedImages st of
        Some imgs \<Rightarrow> if isLoading st then [] else zip imgs [0..<length imgs]
      | None \<Rightarrow> [])"

section \<open>Vocabulary for stating the properties\<close>

definition ops :: "run \<Rightarrow> op list" where
  "ops r = map snd (trace r)"

definition shown :: "run \<Rightarrow> app_state list" where
  "shown r = map fst (trace r)"

text \<open>
  The state a run sets before its first \<open>await\<close>, and the state it sets on entering
  its second step.
\<close>

definition phase1 :: "app_state \<Rightarrow> app_state" where
  "phase1 st = st\<lparr>isLoading := True, error := None, generatedImages := None,
                    progressMessage := step1\<rparr>"

definition phase2 :: "app_state \<Rightarrow> app_state" where
  "phase2 st = (phase1 st)\<lparr>progressMessage := step2\<rparr>"

text \<open>
  The ways a fusion call fails: the remote call is rejected (a remote error, or
  content blocked by the service), the response has no candidate, content or parts to
  read, or no part of the response has inline data.
\<close>

definition call_fails :: "response promise \<Rightarrow> bool" where
  "call_fails p =
     (case p of
        Pending \<Rightarrow> False
      | Rejected err \<Rightarrow> True
      | Fulfilled r \<Rightarrow>
          (case response_parts r of
             Inl err \<Rightarrow> True
           | Inr ps \<Rightarrow> list_all (\<lambda>q. inlineData q = None) ps))"


text \<open>A fusion call is a remote call that addresses the image model.\<close>

fun is_fusion_call :: "op \<Rightarrow> bool" where
  "is_fusion_call (GenerateContent req k) = (model req = ''gemini-2.5-flash-image'')"
| "is_fusion_call (ReadAsDataURL f) = False"

text \<open>
  In the words of the specification, a style description must have the six required
  fields.  A JSON text can only have a field whose quoted name occurs in it, so a
  text in which the quoted name of a required field does not occur is missing that
  field.
\<close>

definition mentions_field :: "string \<Rightarrow> string \<Rightarrow> bool" where
  "mentions_field txt f = sublist ([CHR 0x22] @ f @ [CHR 0x22]) txt"

definition missing_required_field :: "string \<Rightarrow> bool" where
  "missing_required_field txt = list_ex (\<lambda>f. \<not> mentions_field txt f) required_fields"

text \<open>
  The same answers of the remote service, with the media type of every piece of
  inline data in them replaced through \<open>g\<close>.
\<close>

definition retype_part :: "(string \<Rightarrow> string) \<Rightarrow> part \<Rightarrow> part" where
  "retype_part g p = p\<lparr>inlineData := map_option (\<lambda>b. b\<lparr>mimeType := g (mimeType b)\<rparr>) (inlineData p)\<rparr>"

definition retype_response :: "(string \<Rightarrow> string) \<Rightarrow> response \<Rightarrow> response" where
  "retype_response g r =
     r\<lparr>candidates :=
         map_option (map (\<lambda>c. c\<lparr>content :=
           map_option (\<lambda>ct. ct\<lparr>parts := map_option (map (retype_part g)) (parts ct)\<rparr>)
             (content c)\<rparr>))
           (candidates r)\<rparr>"

definition retype_env :: "(string \<Rightarrow> string) \<Rightarrow> env \<Rightarrow> env" where
  "retype_env g e =
     e\<lparr>generateContent := (\<lambda>req k.
          case generateContent e req k of
            Pending \<Rightarrow> Pending
          | Rejected err \<Rightarrow> Rejected err
          | Fulfilled r \<Rightarrow> Fulfilled (retype_response g r))\<rparr>"

section \<open>Concrete runs\<close>

definition reference_file :: jsfile where
  "reference_file = \<lparr>fname = ''reference.jpg'', ftype = ''image/jpeg''\<rparr>"

definition subject_file :: jsfile where
  "subject_file = \<lparr>fname = ''subject.png'', ftype = ''image/png''\<rparr>"

definition notes_file :: jsfile where
  "notes_file = \<lparr>fname = ''notes.txt'', ftype = ''text/plain''\<rparr>"

definition text_part :: part where
  "text_part = \<lparr>inlineData = None, part_text = Some ''Here is your image.''\<rparr>"

definition image_part :: "string \<Rightarrow> part" where
  "image_part d = \<lparr>inlineData = Some \<lparr>mimeType = ''image/jpeg'', data = d\<rparr>, part_text = None\<rparr>"

definition response_with :: "part list \<Rightarrow> response" where
  "response_with ps =
     \<lparr>response_text = [], candidates = Some [\<lparr>content = Some \<lparr>parts = Some ps\<rparr>\<rparr>]\<rparr>"

definition style_json :: string where
  \<open>style_json = ''{"style": "oil painting", "subject": "a harbour", "composition": "centered", "lighting": "soft morning light", "colors": "warm palette", "mood": "serene"}''\<close>

definition demo_reply :: "string \<Rightarrow> request \<Rightarrow> nat \<Rightarrow> response promise" where
  "demo_reply style_text req k =
     (if model req = ''gemini-2.5-flash''
      then Fulfilled \<lparr>response_text = style_text, candidates = None\<rparr>
      else Fulfilled (response_with [text_part, image_part (''SU1H'' @ show_nat k), image_part ''eHg='']))"

text \<open>
  Both reads succeed, the style call answers with all six fields, every fusion call
  answers with a text part followed by two image parts, and the calls settle in the
  reverse of the order they were issued in.
\<close>

definition demo_env :: env where
  "demo_env =
     \<lparr>readAsDataURL = (\<lambda>f. Fulfilled (''data:'' @ ftype f @ '';base64,''
                          @ (if fname f = ''reference.jpg'' then ''UkVG'' else ''U1VC''))),
      createObjectURL = (\<lambda>f. ''blob:'' @ fname f),
      generateContent = demo_reply style_json,
      settle_time = (\<lambda>k. 3 - k)\<rparr>"

text \<open>As \<open>demo_env\<close>, but the style call answers with an empty JSON object.\<close>

definition schemaless_env :: env where
  "schemaless_env = demo_env\<lparr>generateContent := demo_reply ''{}''\<rparr>"

text \<open>As \<open>demo_env\<close>, but the third fusion call answers with text only.\<close>

definition one_failing_env :: env where
  "one_failing_env =
     demo_env\<lparr>generateContent := (\<lambda>req k.
        if model req = ''gemini-2.5-flash-image'' \<and> k = 2
        then Fulfilled (response_with [text_part])
        else demo_reply style_json req k)\<rparr>"

text \<open>As \<open>demo_env\<close>, but the second fusion call is answered without candidates.\<close>

definition no_candidates_env :: env where
  "no_candidates_env =
     demo_env\<lparr>generateContent := (\<lambda>req k.
        if model req = ''gemini-2.5-flash-image'' \<and> k = 1
        then Fulfilled \<lparr>response_text = [], candidates = None\<rparr>
        else demo_reply style_json req k)\<rparr>"

text \<open>As \<open>demo_env\<close>, but the style call is rejected.\<close>

definition blocked_env :: env where
  "blocked_env =
     demo_env\<lparr>generateContent := (\<lambda>req k.
        if model req = ''gemini-2.5-flash'' then Rejected (Error ''blocked'')
        else demo_reply style_json req k)\<rparr>"

text \<open>As \<open>demo_env\<close>, but no file can be read.\<close>

definition unreadable_env :: env where
  "unreadable_env = demo_env\<lparr>readAsDataURL := (\<lambda>f. Rejected ProgressEvent)\<rparr>"

text \<open>Both images uploaded, after an earlier run left results and an error behind.\<close>

definition demo_state :: app_state where
  "demo_state =
     handleSubjectImageUpload demo_env subject_file
       (handleReferenceImageUpload demo_env reference_file initial_state)"

definition stale_state :: app_state where
  "stale_state = demo_state\<lparr>generatedImages := Some [''data:image/png;base64,b2xk''],
                              error := Some ''old error''\<rparr>"

section \<open>Splitting, scanning, and how \<open>Promise.all\<close> settles\<close>

lemma split_nonempty: "split sep s \<noteq> []"
  by (induction s) (auto split: list.splits)

lemma split_no_sep: "sep \<notin> set s \<Longrightarrow> split sep s = [s]"
  by (induction s) auto

lemma split_first: "sep \<notin> set pre \<Longrightarrow> split sep (pre @ sep # rest) = pre # split sep rest"
  by (induction pre) auto



lemma all_settle_fulfilled:
  "length slots = length vs \<Longrightarrow>
   \<forall>i<length vs. slots ! i = None \<or> slots ! i = Some (vs ! i) \<Longrightarrow>
   \<exists>i<length vs. slots ! i = None \<Longrightarrow>
   \<forall>i<length vs. slots ! i = None \<longrightarrow> i \<in> set order \<Longrightarrow>
   \<forall>i\<in>set order. i < length vs \<Longrightarrow>
   all_settle slots (map (\<lambda>i. (i, Fulfilled (vs ! i))) order) = Fulfilled vs"
proof (induction order arbitrary: slots)
  case Nil
  from Nil(3) obtain i where "i < length vs" "slots ! i = None" by blast
  with Nil(4) have "i \<in> set []" by blast
  then show ?case by simp
next
  case (Cons i order)
  let ?slots = "slots[i := Some (vs ! i)]"
  have i: "i < length vs" using Cons.prems(5) by simp
  have len: "length ?slots = length vs" using Cons.prems(1) by simp
  have vals: "\<forall>j<length vs. ?slots ! j = None \<or> ?slots ! j = Some (vs ! j)"
  proof (intro allI impI)
    fix j assume j: "j < length vs"
    show "?slots ! j = None \<or> ?slots ! j = Some (vs ! j)"
    proof (cases "j = i")
      case True
      then show ?thesis using j Cons.prems(1) by simp
    next
      case False
      then have "?slots ! j = slots ! j" by simp
      then show ?thesis using Cons.prems(2) j by simp
    qed
  qed
  have step: "all_settle slots (map (\<lambda>i. (i, Fulfilled (vs ! i))) (i # order)) =
      (if list_all (\<lambda>s. s \<noteq> None) ?slots then Fulfilled (map the ?slots)
       else all_settle ?slots (map (\<lambda>i. (i, Fulfilled (vs ! i))) order))"
    by (simp add: Let_def)
  show ?case
  proof (cases "list_all (\<lambda>s. s \<noteq> None) ?slots")
    case True
    have eq: "map the ?slots = vs"
    proof (rule nth_equalityI)
      show "length (map the ?slots) = length vs" using len by simp
    next
      fix j assume "j < length (map the ?slots)"
      then have j: "j < length vs" using len by simp
      then have filled: "?slots ! j \<noteq> None"
        using True len by (simp add: list_all_length)
      have "?slots ! j = Some (vs ! j)"
      proof (rule disjE [OF vals [rule_format, OF j]])
        assume "?slots ! j = None"
        with filled show ?thesis by (rule notE)
      next
        assume "?slots ! j = Some (vs ! j)"
        then show ?thesis .
      qed
      then show "map the ?slots ! j = vs ! j" using j len by simp
    qed
    have "all_settle slots (map (\<lambda>i. (i, Fulfilled (vs ! i))) (i # order)) = Fulfilled (map the ?slots)"
      by (simp only: step True if_True)
    then show ?thesis by (simp only: eq)
  next
    case False
    then obtain j0 where "j0 < length ?slots" "\<not> (?slots ! j0 \<noteq> None)"
      unfolding list_all_length by blast
    then have ex: "\<exists>j<length vs. ?slots ! j = None"
      using len by auto
    have cover: "\<forall>j<length vs. ?slots ! j = None \<longrightarrow> j \<in> set order"
    proof (intro allI impI)
      fix j assume j: "j < length vs" and n: "?slots ! j = None"
      have ji: "j \<noteq> i"
      proof
        assume "j = i"
        then have "?slots ! j = Some (vs ! i)" using i Cons.prems(1) by simp
        with n show False by simp
      qed
      then have "slots ! j = None" using n by simp
      then have "j \<in> set (i # order)" using Cons.prems(4) j by blast
      then show "j \<in> set order" using ji by simp
    qed
    have rest: "\<forall>i\<in>set order. i < length vs" using Cons.prems(5) by simp
    have "all_settle ?slots (map (\<lambda>i. (i, Fulfilled (vs ! i))) order) = Fulfilled vs"
      by (rule Cons.IH [OF len vals ex cover rest])
    then show ?thesis by (simp only: step False if_False)
  qed
qed

lemma promise_all_fulfilled: "promise_all t (map Fulfilled vs) = Fulfilled vs"
proof (cases "vs = []")
  case True
  then show ?thesis by (simp add: promise_all_def)
next
  case False
  let ?order = "sort_key t [0..<length vs]"
  have m: "map (\<lambda>i. (i, map Fulfilled vs ! i)) ?order = map (\<lambda>i. (i, Fulfilled (vs ! i))) ?order"
    by (rule map_cong) auto
  have "all_settle (replicate (length vs) None) (map (\<lambda>i. (i, Fulfilled (vs ! i))) ?order) = Fulfilled vs"
    using False by (intro all_settle_fulfilled) auto
  then show ?thesis using False by (simp add: promise_all_def m)
qed

lemma all_settle_rejected:
  "k < length slots \<Longrightarrow> slots ! k = None \<Longrightarrow> k \<in> set order \<Longrightarrow> ps ! k = Rejected err0
   \<Longrightarrow> \<exists>err. all_settle slots (map (\<lambda>i. (i, ps ! i)) order) = Rejected err"
proof (induction order arbitrary: slots)
  case Nil
  then show ?case by simp
next
  case (Cons i order)
  show ?case
  proof (cases "ps ! i")
    case Pending
    then have "i \<noteq> k" using Cons.prems(4) by auto
    then have "k \<in> set order" using Cons.prems(3) by simp
    from Cons.IH [OF Cons.prems(1,2) this Cons.prems(4)] Pending show ?thesis by simp
  next
    case (Rejected e)
    then show ?thesis by simp
  next
    case (Fulfilled v)
    then have ik: "i \<noteq> k" using Cons.prems(4) by auto
    then have mem: "k \<in> set order" using Cons.prems(3) by simp
    let ?slots = "slots[i := Some v]"
    have k: "k < length ?slots" "?slots ! k = None"
      using Cons.prems(1,2) ik by simp_all
    then have "\<not> list_all (\<lambda>s. s \<noteq> None) ?slots"
      by (auto simp: list_all_length)
    with Cons.IH [OF k mem Cons.prems(4)] Fulfilled show ?thesis by simp
  qed
qed

lemma promise_all_rejected:
  "k < length ps \<Longrightarrow> ps ! k = Rejected err0 \<Longrightarrow> \<exists>err. promise_all t ps = Rejected err"
proof -
  assume k: "k < length ps" and r: "ps ! k = Rejected err0"
  then have ne: "ps \<noteq> []" by auto
  have "\<exists>err. all_settle (replicate (length ps) None)
          (map (\<lambda>i. (i, ps ! i)) (sort_key t [0..<length ps])) = Rejected err"
  proof (rule all_settle_rejected [where k = k])
    show "k < length (replicate (length ps) (None :: 'a option))" using k by simp
    show "replicate (length ps) (None :: 'a option) ! k = None" using k by simp
    show "k \<in> set (sort_key t [0..<length ps])" using k by simp
    show "ps ! k = Rejected err0" by (rule r)
  qed
  then show ?thesis using ne by (simp add: promise_all_def)
qed

lemma all_settle_Fulfilled_D:
  "all_settle slots evs = Fulfilled vs \<Longrightarrow>
   length vs = length slots \<and>
   (\<forall>i<length slots. slots ! i = Some (vs ! i) \<or> (i, Fulfilled (vs ! i)) \<in> set evs)"
proof (induction slots evs rule: all_settle.induct)
  case (1 slots)
  then show ?case by simp
next
  case (2 slots i evs)
  then show ?case by auto
next
  case (3 slots i err evs)
  then show ?case by simp
next
  case (4 slots i v evs)
  let ?slots = "slots[i := Some v]"
  show ?case
  proof (cases "list_all (\<lambda>s. s \<noteq> None) ?slots")
    case True
    with 4(2) have vs: "vs = map the ?slots" by simp
    have "\<forall>j<length slots. slots ! j = Some (vs ! j) \<or> (j, Fulfilled (vs ! j)) \<in> set ((i, Fulfilled v) # evs)"
    proof (intro allI impI)
      fix j assume j: "j < length slots"
      show "slots ! j = Some (vs ! j) \<or> (j, Fulfilled (vs ! j)) \<in> set ((i, Fulfilled v) # evs)"
      proof (cases "j = i")
        case True
        then show ?thesis using vs j by simp
      next
        case False
        then have "?slots ! j = slots ! j" by simp
        moreover have "?slots ! j \<noteq> None" using True j by (simp add: list_all_length)
        ultimately show ?thesis using vs j False by auto
      qed
    qed
    then show ?thesis using vs by simp
  next
    case False
    with 4(2) have "all_settle ?slots evs = Fulfilled vs" by simp
    from 4(1) [OF refl False this]
    have len: "length vs = length slots"
      and ih: "\<forall>j<length slots. ?slots ! j = Some (vs ! j) \<or> (j, Fulfilled (vs ! j)) \<in> set evs"
      by simp_all
    have "\<forall>j<length slots. slots ! j = Some (vs ! j) \<or> (j, Fulfilled (vs ! j)) \<in> set ((i, Fulfilled v) # evs)"
    proof (intro allI impI)
      fix j assume j: "j < length slots"
      show "slots ! j = Some (vs ! j) \<or> (j, Fulfilled (vs ! j)) \<in> set ((i, Fulfilled v) # evs)"
        using ih j by (cases "j = i") auto
    qed
    with len show ?thesis by simp
  qed
qed

lemma promise_all_Fulfilled_D:
  assumes "promise_all t ps = Fulfilled vs"
  shows "ps = map Fulfilled vs"
proof (cases "ps = []")
  case True
  with assms show ?thesis by (simp add: promise_all_def)
next
  case False
  with assms have a: "all_settle (replicate (length ps) None)
             (map (\<lambda>i. (i, ps ! i)) (sort_key t [0..<length ps])) = Fulfilled vs"
    by (simp add: promise_all_def)
  from all_settle_Fulfilled_D [OF a]
  have len: "length vs = length ps"
    and el: "\<forall>i<length ps. (i, Fulfilled (vs ! i)) \<in> set (map (\<lambda>i. (i, ps ! i)) (sort_key t [0..<length ps]))"
    by auto
  show ?thesis
  proof (rule nth_equalityI)
    show "length ps = length (map Fulfilled vs)" using len by simp
  next
    fix i assume "i < length ps"
    then have "(i, Fulfilled (vs ! i)) \<in> (\<lambda>i. (i, ps ! i)) ` set (sort_key t [0..<length ps])"
      using el by simp
    then obtain k where "(i, Fulfilled (vs ! i)) = (k, ps ! k)" by (rule imageE)
    then have a: "i = k" and b: "Fulfilled (vs ! i) = ps ! k"
      unfolding prod.inject by (rule conjunct1, rule conjunct2)
    have "ps ! i = Fulfilled (vs ! i)" unfolding a using b [unfolded a] by (rule sym)
    then show "ps ! i = map Fulfilled vs ! i" using \<open>i < length ps\<close> len by simp
  qed
qed

section \<open>The services and the orchestrator, step by step\<close>

lemma generateSingleImage_settle_time [simp]:
  "generateSingleImage (e\<lparr>settle_time := t\<rparr>) req k = generateSingleImage e req k"
  by (simp add: generateSingleImage_def)

lemma generateSingleImage_Rejected_iff:
  "(\<exists>err. generateSingleImage e req k = Rejected err) \<longleftrightarrow> call_fails (generateContent e req k)"
proof (cases "generateContent e req k")
  case Pending
  then show ?thesis by (simp add: generateSingleImage_def call_fails_def)
next
  case (Rejected err)
  then show ?thesis by (simp add: generateSingleImage_def call_fails_def)
next
  case (Fulfilled r)
  show ?thesis
  proof (cases "response_parts r")
    case (Inl err)
    with Fulfilled show ?thesis by (simp add: generateSingleImage_def call_fails_def)
  next
    case (Inr ps)
    have "(\<exists>err. scan_parts ps = Inl err) \<longleftrightarrow> list_all (\<lambda>q. inlineData q = None) ps"
      by (induction ps) (auto split: option.splits)
    with Fulfilled Inr show ?thesis
      by (auto simp: generateSingleImage_def call_fails_def split: sum.splits)
  qed
qed

lemma fst_generateFusedImages:
  "fst (generateFusedImages e sp b m r) =
     map (GenerateContent (fusion_request sp b m r)) [0, 1, 2, 3]"
  by (simp add: generateFusedImages_def Let_def)

lemma model_fusion_request [simp]: "model (fusion_request sp b m r) = ''gemini-2.5-flash-image''"
  by (simp add: fusion_request_def)

lemma model_style_request [simp]: "model (style_request b m) = ''gemini-2.5-flash''"
  by (simp add: style_request_def)

lemma is_fusion_call_simps [simp]:
  "is_fusion_call (GenerateContent (fusion_request sp b m r) k)"
  "\<not> is_fusion_call (GenerateContent (style_request b m) k)"
  by simp_all

lemma split_header_payload:
  assumes "sep \<notin> set header" and "sep \<notin> set payload"
  shows "split sep (header @ sep # payload) = [header, payload]"
  using split_first [OF assms(1), of payload] split_no_sep [OF assms(2)] by simp

lemma scan_parts_retype [simp]: "scan_parts (map (retype_part g) ps) = scan_parts ps"
  by (induction ps) (auto simp: retype_part_def split: option.splits)

lemma response_parts_retype:
  "response_parts (retype_response g r) =
     (case response_parts r of Inl err \<Rightarrow> Inl err | Inr ps \<Rightarrow> Inr (map (retype_part g) ps))"
proof (cases "candidates r")
  case None
  then show ?thesis by (simp add: response_parts_def retype_response_def)
next
  case (Some cs)
  show ?thesis
  proof (cases cs)
    case Nil
    with Some show ?thesis by (simp add: response_parts_def retype_response_def)
  next
    case (Cons c rest)
    show ?thesis
    proof (cases "content c")
      case None
      with Some Cons show ?thesis by (simp add: response_parts_def retype_response_def)
    next
      case ct: (Some ct)
      with Some Cons show ?thesis
        by (cases "parts ct") (simp_all add: response_parts_def retype_response_def)
    qed
  qed
qed

lemma generateSingleImage_retype [simp]:
  "generateSingleImage (retype_env g e) req k = generateSingleImage e req k"
  by (simp add: generateSingleImage_def retype_env_def response_parts_retype
        split: promise.splits sum.splits)

lemma generateFusedImages_retype [simp]:
  "generateFusedImages (retype_env g e) sp b m r = generateFusedImages e sp b m r"
  by (simp add: generateFusedImages_def Let_def) (simp add: retype_env_def)

lemma generatePromptFromImage_retype [simp]:
  "generatePromptFromImage (retype_env g e) b m = generatePromptFromImage e b m"
  by (simp add: generatePromptFromImage_def Let_def retype_env_def retype_response_def
        split: promise.splits)

lemma fileToBase64_retype [simp]: "fileToBase64 (retype_env g e) f = fileToBase64 e f"
  by (simp add: fileToBase64_def retype_env_def)

lemma handleGenerateClick_both:
  assumes "referenceImage st = Some reference" and "subjectImage st = Some subject"
  shows "handleGenerateClick e st =
     await (phase1 st) [] (fileToBase64 e (the_file reference)) (\<lambda>tr1 b.
     await (phase1 st) tr1 (generatePromptFromImage e b (ftype (the_file reference))) (\<lambda>tr2 sp.
     await (phase2 st) tr2 (fileToBase64 e (the_file subject)) (\<lambda>tr3 sb.
     await (phase2 st) tr3 (generateFusedImages e sp sb (ftype (the_file subject)) (aspectRatio st))
       (\<lambda>tr4 imgs.
         \<lparr>final = finally_block ((phase2 st)\<lparr>generatedImages := Some (map ((@) png_prefix) imgs)\<rparr>),
          trace = tr4\<rparr>))))"
  using assms by (simp add: handleGenerateClick_def phase1_def phase2_def Let_def)

lemma trace_handleGenerateClick:
  assumes "referenceImage st = Some reference" and "subjectImage st = Some subject"
  shows "trace (handleGenerateClick e st) =
     (phase1 st, ReadAsDataURL (the_file reference)) #
     (case snd (fileToBase64 e (the_file reference)) of
        Fulfilled b \<Rightarrow>
          (phase1 st, GenerateContent (style_request b (ftype (the_file reference))) 0) #
          (case generateContent e (style_request b (ftype (the_file reference))) 0 of
             Fulfilled r \<Rightarrow>
               (phase2 st, ReadAsDataURL (the_file subject)) #
               (case snd (fileToBase64 e (the_file subject)) of
                  Fulfilled sb \<Rightarrow>
                    map (\<lambda>k. (phase2 st, GenerateContent
                            (fusion_request (response_text r) sb (ftype (the_file subject))
                               (aspectRatio st)) k)) [0, 1, 2, 3]
                | _ \<Rightarrow> [])
           | _ \<Rightarrow> [])
      | _ \<Rightarrow> [])"
  unfolding handleGenerateClick_both [OF assms]
  by (simp add: await_def Let_def fileToBase64_def generatePromptFromImage_def
        fst_generateFusedImages split: promise.splits)

lemma final_handleGenerateClick:
  assumes "referenceImage st = Some reference" and "subjectImage st = Some subject"
  shows "final (handleGenerateClick e st) =
     (case snd (fileToBase64 e (the_file reference)) of
        Pending \<Rightarrow> phase1 st
      | Rejected ev \<Rightarrow> catch_block ev (phase1 st)
      | Fulfilled b \<Rightarrow>
          (case generateContent e (style_request b (ftype (the_file reference))) 0 of
             Pending \<Rightarrow> phase1 st
           | Rejected err \<Rightarrow> catch_block (Error style_failed) (phase1 st)
           | Fulfilled r \<Rightarrow>
               (case snd (fileToBase64 e (the_file subject)) of
                  Pending \<Rightarrow> phase2 st
                | Rejected ev \<Rightarrow> catch_block ev (phase2 st)
                | Fulfilled sb \<Rightarrow>
                    (case snd (generateFusedImages e (response_text r) sb
                                 (ftype (the_file subject)) (aspectRatio st)) of
                       Pending \<Rightarrow> phase2 st
                     | Rejected err \<Rightarrow> catch_block err (phase2 st)
                     | Fulfilled imgs \<Rightarrow>
                         finally_block ((phase2 st)\<lparr>generatedImages :=
                            Some (map ((@) png_prefix) imgs)\<rparr>)))))"
  unfolding handleGenerateClick_both [OF assms]
  by (simp add: await_def Let_def fileToBase64_def generatePromptFromImage_def
        split: promise.splits)

lemma phase_simps [simp]:
  "generatedImages (phase1 st) = None" "error (phase1 st) = None" "isLoading (phase1 st)"
  "progressMessage (phase1 st) = step1"
  "generatedImages (phase2 st) = None" "error (phase2 st) = None" "isLoading (phase2 st)"
  "progressMessage (phase2 st) = step2"
  by (simp_all add: phase1_def phase2_def)

lemma catch_block_simps [simp]:
  "generatedImages (catch_block err s) = generatedImages s"
  "error (catch_block err s) = Some (if instanceofError err then message err else unknown_error)"
  "isLoading (catch_block err s) = False"
  by (simp_all add: catch_block_def finally_block_def)

lemma finally_block_simps [simp]:
  "generatedImages (finally_block s) = generatedImages s"
  "error (finally_block s) = error s"
  "isLoading (finally_block s) = False"
  by (simp_all add: finally_block_def)

lemma phase_stale [simp]:
  "phase1 (st\<lparr>generatedImages := g, error := x\<rparr>) = phase1 st"
  "phase2 (st\<lparr>generatedImages := g, error := x\<rparr>) = phase2 st"
  by (simp_all add: phase1_def phase2_def)

lemma handleGenerateClick_retype:
  "handleGenerateClick (retype_env g e) st = handleGenerateClick e st"
  by (simp add: handleGenerateClick_def Let_def split: option.splits)

section \<open>The concrete runs, evaluated\<close>

lemmas demo_defs =
  demo_env_def demo_reply_def response_with_def text_part_def image_part_def
  one_failing_env_def blocked_env_def schemaless_env_def unreadable_env_def
  no_candidates_env_def
  reference_file_def subject_file_def

lemma demo_single:
  "generateSingleImage demo_env (fusion_request sp b m r) k = Fulfilled (''SU1H'' @ show_nat k)"
  by (simp add: generateSingleImage_def response_parts_def demo_defs)

lemma schemaless_single:
  "generateSingleImage schemaless_env (fusion_request sp b m r) k = Fulfilled (''SU1H'' @ show_nat k)"
  by (simp add: generateSingleImage_def response_parts_def demo_defs)

lemma demo_state_fields:
  "referenceImage demo_state = Some \<lparr>the_file = reference_file, url = ''blob:reference.jpg''\<rparr>"
  "subjectImage demo_state = Some \<lparr>the_file = subject_file, url = ''blob:subject.png''\<rparr>"
  "aspectRatio demo_state = ''1:1''"
  by (simp_all add: demo_state_def handleSubjectImageUpload_def handleReferenceImageUpload_def
        initial_state_def demo_env_def reference_file_def subject_file_def)

lemma demo_ftypes:
  "ftype reference_file = ''image/jpeg''" "ftype subject_file = ''image/png''"
  by (simp_all add: reference_file_def subject_file_def)

lemma demo_reads:
  "snd (fileToBase64 demo_env reference_file) = Fulfilled (Some ''UkVG'')"
  "snd (fileToBase64 demo_env subject_file) = Fulfilled (Some ''U1VC'')"
  "snd (fileToBase64 blocked_env reference_file) = Fulfilled (Some ''UkVG'')"
  "snd (fileToBase64 schemaless_env reference_file) = Fulfilled (Some ''UkVG'')"
  "snd (fileToBase64 schemaless_env subject_file) = Fulfilled (Some ''U1VC'')"
  "snd (fileToBase64 unreadable_env reference_file) = Rejected ProgressEvent"
  by (simp_all add: fileToBase64_def at_index_def demo_defs)

lemma demo_style:
  "generateContent demo_env (style_request b m) 0
     = Fulfilled \<lparr>response_text = style_json, candidates = None\<rparr>"
  "generateContent schemaless_env (style_request b m) 0
     = Fulfilled \<lparr>response_text = ''{}'', candidates = None\<rparr>"
  "generateContent blocked_env (style_request b m) 0 = Rejected (Error ''blocked'')"
  by (simp_all add: demo_defs)

lemma demo_fused:
  "snd (generateFusedImages demo_env sp b m r) = Fulfilled [''SU1H0'', ''SU1H1'', ''SU1H2'', ''SU1H3'']"
  "snd (generateFusedImages schemaless_env sp b m r) = Fulfilled [''SU1H0'', ''SU1H1'', ''SU1H2'', ''SU1H3'']"
  using promise_all_fulfilled [of "settle_time demo_env" "[''SU1H0'', ''SU1H1'', ''SU1H2'', ''SU1H3'']"]
    promise_all_fulfilled [of "settle_time schemaless_env" "[''SU1H0'', ''SU1H1'', ''SU1H2'', ''SU1H3'']"]
  by (simp_all add: generateFusedImages_def Let_def demo_single schemaless_single show_nat.simps)

section \<open>The properties\<close>

text \<open>
  C1.  When all four fusion calls succeed, \<open>generateFusedImages\<close> returns exactly four
  payloads, the \<open>k\<close>-th being the result of the \<open>k\<close>-th call issued, whatever the
  order \<open>t\<close> in which the calls settle.
\<close>

theorem generateFusedImages_four_in_issue_order:
  assumes "generateSingleImage e (fusion_request sp b m r) 0 = Fulfilled d0"
      and "generateSingleImage e (fusion_request sp b m r) 1 = Fulfilled d1"
      and "generateSingleImage e (fusion_request sp b m r) 2 = Fulfilled d2"
      and "generateSingleImage e (fusion_request sp b m r) 3 = Fulfilled d3"
  shows "generateFusedImages (e\<lparr>settle_time := t\<rparr>) sp b m r =
           ([GenerateContent (fusion_request sp b m r) 0, GenerateContent (fusion_request sp b m r) 1,
             GenerateContent (fusion_request sp b m r) 2, GenerateContent (fusion_request sp b m r) 3],
            Fulfilled [d0, d1, d2, d3])"
proof -
  have "promise_all t (map Fulfilled [d0, d1, d2, d3]) = Fulfilled [d0, d1, d2, d3]"
    by (rule promise_all_fulfilled)
  then show ?thesis
    using assms by (simp add: generateFusedImages_def Let_def)
qed

theorem generateFusedImages_four_in_issue_order_witness:
  "generateSingleImage demo_env (fusion_request style_json (Some ''U1VC'') ''image/png'' ''1:1'') 0 = Fulfilled ''SU1H0''
   \<and> generateSingleImage demo_env (fusion_request style_json (Some ''U1VC'') ''image/png'' ''1:1'') 1 = Fulfilled ''SU1H1''
   \<and> generateSingleImage demo_env (fusion_request style_json (Some ''U1VC'') ''image/png'' ''1:1'') 2 = Fulfilled ''SU1H2''
   \<and> generateSingleImage demo_env (fusion_request style_json (Some ''U1VC'') ''image/png'' ''1:1'') 3 = Fulfilled ''SU1H3''
   \<and> snd (generateFusedImages (demo_env\<lparr>settle_time := (\<lambda>k. 3 - k)\<rparr>)
             style_json (Some ''U1VC'') ''image/png'' ''1:1'')
       = Fulfilled [''SU1H0'', ''SU1H1'', ''SU1H2'', ''SU1H3'']"
proof -
  let ?req = "fusion_request style_json (Some ''U1VC'') ''image/png'' ''1:1''"
  have h0: "generateSingleImage demo_env ?req 0 = Fulfilled ''SU1H0''"
    by (simp add: demo_single show_nat.simps)
  have h1: "generateSingleImage demo_env ?req 1 = Fulfilled ''SU1H1''"
    by (simp add: demo_single show_nat.simps)
  have h2: "generateSingleImage demo_env ?req 2 = Fulfilled ''SU1H2''"
    by (simp add: demo_single show_nat.simps)
  have h3: "generateSingleImage demo_env ?req 3 = Fulfilled ''SU1H3''"
    by (simp add: demo_single show_nat.simps)
  show ?thesis
    using generateFusedImages_four_in_issue_order [OF h0 h1 h2 h3, of "\<lambda>k. 3 - k"] h0 h1 h2 h3
    by simp
qed

text \<open>
  C2.  If any one of the four fusion calls fails (the remote call is rejected, the
  response has nothing to read, or no part of it has inline data), the whole of
  \<open>generateFusedImages\<close> is rejected with the one fixed error; and whenever it is
  fulfilled, it is fulfilled with four images, one from each call: never with fewer.
\<close>

theorem generateFusedImages_all_or_nothing:
  "(k < 4 \<and> call_fails (generateContent e (fusion_request sp b m r) k)
      \<longrightarrow> snd (generateFusedImages e sp b m r) = Rejected (Error fusion_failed))
   \<and> (snd (generateFusedImages e sp b m r) = Fulfilled imgs
      \<longrightarrow> length imgs = 4
          \<and> (\<forall>j<4. generateSingleImage e (fusion_request sp b m r) j = Fulfilled (imgs ! j)))"
proof (intro conjI impI)
  let ?req = "fusion_request sp b m r"
  let ?ps = "[generateSingleImage e ?req 0, generateSingleImage e ?req 1,
              generateSingleImage e ?req 2, generateSingleImage e ?req 3]"
  have nth: "\<And>j. j < 4 \<Longrightarrow> ?ps ! j = generateSingleImage e ?req j"
  proof -
    fix j :: nat assume "j < 4"
    then consider "j = 0" | "j = 1" | "j = 2" | "j = 3" by linarith
    then show "?ps ! j = generateSingleImage e ?req j" by cases simp_all
  qed
  {
    assume a: "k < 4 \<and> call_fails (generateContent e ?req k)"
    then obtain err0 where "generateSingleImage e ?req k = Rejected err0"
      using generateSingleImage_Rejected_iff [of e ?req k] by blast
    with a nth [of k] have "?ps ! k = Rejected err0" by simp
    moreover have "k < length ?ps" using a by simp
    ultimately obtain err where "promise_all (settle_time e) ?ps = Rejected err"
      using promise_all_rejected [of k ?ps err0 "settle_time e"] by blast
    then show "snd (generateFusedImages e sp b m r) = Rejected (Error fusion_failed)"
      by (simp add: generateFusedImages_def Let_def)
  }
  {
    assume "snd (generateFusedImages e sp b m r) = Fulfilled imgs"
    then have "promise_all (settle_time e) ?ps = Fulfilled imgs"
      by (simp add: generateFusedImages_def Let_def split: promise.splits)
    then have eq: "?ps = map Fulfilled imgs" by (rule promise_all_Fulfilled_D)
    then have "length ?ps = length (map Fulfilled imgs)" by (rule arg_cong)
    then show len: "length imgs = 4" by simp
    show "\<forall>j<4. generateSingleImage e ?req j = Fulfilled (imgs ! j)"
    proof (intro allI impI)
      fix j :: nat assume j: "j < 4"
      have "?ps ! j = map Fulfilled imgs ! j" using eq by (rule arg_cong)
      then show "generateSingleImage e ?req j = Fulfilled (imgs ! j)"
        using nth [OF j] j len by simp
    qed
  }
qed

theorem generateFusedImages_all_or_nothing_witness:
  "(2::nat) < 4
   \<and> call_fails (generateContent one_failing_env
         (fusion_request style_json (Some ''U1VC'') ''image/png'' ''1:1'') 2)
   \<and> snd (generateFusedImages one_failing_env style_json (Some ''U1VC'') ''image/png'' ''1:1'')
       = Rejected (Error fusion_failed)
   \<and> snd (generateFusedImages demo_env style_json (Some ''U1VC'') ''image/png'' ''1:1'')
       = Fulfilled [''SU1H0'', ''SU1H1'', ''SU1H2'', ''SU1H3'']
   \<and> length [''SU1H0'', ''SU1H1'', ''SU1H2'', ''SU1H3''] = 4
   \<and> generateSingleImage demo_env
         (fusion_request style_json (Some ''U1VC'') ''image/png'' ''1:1'') 3
       = Fulfilled ([''SU1H0'', ''SU1H1'', ''SU1H2'', ''SU1H3''] ! 3)"
proof -
  let ?req = "fusion_request style_json (Some ''U1VC'') ''image/png'' ''1:1''"
  have f: "call_fails (generateContent one_failing_env ?req 2)"
    by (simp add: call_fails_def response_parts_def demo_defs)
  have r: "snd (generateFusedImages one_failing_env style_json (Some ''U1VC'') ''image/png'' ''1:1'')
             = Rejected (Error fusion_failed)"
    using generateFusedImages_all_or_nothing
      [of 2 one_failing_env style_json "Some ''U1VC''" "''image/png''" "''1:1''" "[]"] f
    by simp
  have s: "snd (generateFusedImages demo_env style_json (Some ''U1VC'') ''image/png'' ''1:1'')
             = Fulfilled [''SU1H0'', ''SU1H1'', ''SU1H2'', ''SU1H3'']"
    using promise_all_fulfilled [of "settle_time demo_env" "[''SU1H0'', ''SU1H1'', ''SU1H2'', ''SU1H3'']"]
    by (simp add: generateFusedImages_def Let_def demo_single show_nat.simps)
  have "generateSingleImage demo_env ?req 3 = Fulfilled ([''SU1H0'', ''SU1H1'', ''SU1H2'', ''SU1H3''] ! 3)"
    using generateFusedImages_all_or_nothing
      [of 2 demo_env style_json "Some ''U1VC''" "''image/png''" "''1:1''"
          "[''SU1H0'', ''SU1H1'', ''SU1H2'', ''SU1H3'']"] s
    by simp
  with f r s show ?thesis by simp
qed

text \<open>
  C3, as amended.  A run fails at the style step, and starts no fusion call, when the
  style call itself is rejected.  The text of a fulfilled style call is not inspected:
  whatever it is, once the subject image is encoded the four fusion calls are started
  with that text in their prompt, and the outcome of the run is the outcome of the
  fusion step.
\<close>

theorem style_text_not_validated:
  assumes "referenceImage st = Some reference" and "subjectImage st = Some subject"
      and "snd (fileToBase64 e (the_file reference)) = Fulfilled b"
  shows "(generateContent e (style_request b (ftype (the_file reference))) 0 = Rejected err
            \<longrightarrow> final (handleGenerateClick e st) = catch_block (Error style_failed) (phase1 st)
                \<and> error (final (handleGenerateClick e st)) = Some style_failed
                \<and> \<not> list_ex is_fusion_call (ops (handleGenerateClick e st))
                \<and> phase2 st \<notin> set (shown (handleGenerateClick e st)))
         \<and> (generateContent e (style_request b (ftype (the_file reference))) 0 = Fulfilled r
             \<and> snd (fileToBase64 e (the_file subject)) = Fulfilled sb
            \<longrightarrow> trace (handleGenerateClick e st) =
                  [(phase1 st, ReadAsDataURL (the_file reference)),
                   (phase1 st, GenerateContent (style_request b (ftype (the_file reference))) 0),
                   (phase2 st, ReadAsDataURL (the_file subject))]
                  @ map (\<lambda>k. (phase2 st, GenerateContent
                            (fusion_request (response_text r) sb (ftype (the_file subject))
                               (aspectRatio st)) k)) [0, 1, 2, 3]
                \<and> final (handleGenerateClick e st) =
                    (case snd (generateFusedImages e (response_text r) sb
                                 (ftype (the_file subject)) (aspectRatio st)) of
                       Pending \<Rightarrow> phase2 st
                     | Rejected err \<Rightarrow> catch_block err (phase2 st)
                     | Fulfilled imgs \<Rightarrow>
                         finally_block ((phase2 st)\<lparr>generatedImages :=
                            Some (map ((@) png_prefix) imgs)\<rparr>)))"
proof -
  note tr = trace_handleGenerateClick [OF assms(1,2), of e]
  note fin = final_handleGenerateClick [OF assms(1,2), of e]
  have neq: "phase2 st \<noteq> phase1 st"
  proof
    assume "phase2 st = phase1 st"
    then have "progressMessage (phase2 st) = progressMessage (phase1 st)" by (rule arg_cong)
    then show False by (simp add: step1_def step2_def)
  qed
  show ?thesis
    using tr fin assms(3) neq
    by (simp add: ops_def shown_def style_failed_def)
qed

theorem style_text_not_validated_witness:
  "referenceImage demo_state = Some \<lparr>the_file = reference_file, url = ''blob:reference.jpg''\<rparr>
   \<and> subjectImage demo_state = Some \<lparr>the_file = subject_file, url = ''blob:subject.png''\<rparr>
   \<and> snd (fileToBase64 blocked_env reference_file) = Fulfilled (Some ''UkVG'')
   \<and> generateContent blocked_env (style_request (Some ''UkVG'') ''image/jpeg'') 0
       = Rejected (Error ''blocked'')
   \<and> error (final (handleGenerateClick blocked_env demo_state)) = Some style_failed
   \<and> \<not> list_ex is_fusion_call (ops (handleGenerateClick blocked_env demo_state))
   \<and> phase2 demo_state \<notin> set (shown (handleGenerateClick blocked_env demo_state))
   \<and> snd (fileToBase64 schemaless_env reference_file) = Fulfilled (Some ''UkVG'')
   \<and> generateContent schemaless_env (style_request (Some ''UkVG'') ''image/jpeg'') 0
       = Fulfilled \<lparr>response_text = ''{}'', candidates = None\<rparr>
   \<and> snd (fileToBase64 schemaless_env subject_file) = Fulfilled (Some ''U1VC'')
   \<and> ops (handleGenerateClick schemaless_env demo_state) =
        [ReadAsDataURL reference_file,
         GenerateContent (style_request (Some ''UkVG'') ''image/jpeg'') 0,
         ReadAsDataURL subject_file,
         GenerateContent (fusion_request ''{}'' (Some ''U1VC'') ''image/png'' ''1:1'') 0,
         GenerateContent (fusion_request ''{}'' (Some ''U1VC'') ''image/png'' ''1:1'') 1,
         GenerateContent (fusion_request ''{}'' (Some ''U1VC'') ''image/png'' ''1:1'') 2,
         GenerateContent (fusion_request ''{}'' (Some ''U1VC'') ''image/png'' ''1:1'') 3]"
proof -
  let ?ref = "\<lparr>the_file = reference_file, url = ''blob:reference.jpg''\<rparr>"
  let ?subj = "\<lparr>the_file = subject_file, url = ''blob:subject.png''\<rparr>"
  have rb: "snd (fileToBase64 blocked_env (the_file ?ref)) = Fulfilled (Some ''UkVG'')"
    and rs: "snd (fileToBase64 schemaless_env (the_file ?ref)) = Fulfilled (Some ''UkVG'')"
    by (simp_all add: demo_reads)
  have hb: "generateContent blocked_env (style_request (Some ''UkVG'') (ftype (the_file ?ref))) 0
              = Rejected (Error ''blocked'')"
    by (simp add: demo_style)
  have hs: "generateContent schemaless_env (style_request (Some ''UkVG'') (ftype (the_file ?ref))) 0
              = Fulfilled \<lparr>response_text = ''{}'', candidates = None\<rparr>
            \<and> snd (fileToBase64 schemaless_env (the_file ?subj)) = Fulfilled (Some ''U1VC'')"
    by (simp add: demo_style demo_reads)
  have c1: "error (final (handleGenerateClick blocked_env demo_state)) = Some style_failed
     \<and> \<not> list_ex is_fusion_call (ops (handleGenerateClick blocked_env demo_state))
     \<and> phase2 demo_state \<notin> set (shown (handleGenerateClick blocked_env demo_state))"
    using style_text_not_validated [OF demo_state_fields(1,2) rb, THEN conjunct1, THEN mp, OF hb]
    by simp
  have c2: "trace (handleGenerateClick schemaless_env demo_state) =
       [(phase1 demo_state, ReadAsDataURL (the_file ?ref)),
        (phase1 demo_state, GenerateContent (style_request (Some ''UkVG'') (ftype (the_file ?ref))) 0),
        (phase2 demo_state, ReadAsDataURL (the_file ?subj))]
       @ map (\<lambda>k. (phase2 demo_state, GenerateContent
                 (fusion_request (response_text \<lparr>response_text = ''{}'', candidates = None\<rparr>)
                    (Some ''U1VC'') (ftype (the_file ?subj)) (aspectRatio demo_state)) k)) [0, 1, 2, 3]"
    using style_text_not_validated [OF demo_state_fields(1,2) rs, THEN conjunct2, THEN mp, OF hs]
    by (rule conjunct1)
  have c3: "ops (handleGenerateClick schemaless_env demo_state) =
        [ReadAsDataURL reference_file,
         GenerateContent (style_request (Some ''UkVG'') ''image/jpeg'') 0,
         ReadAsDataURL subject_file,
         GenerateContent (fusion_request ''{}'' (Some ''U1VC'') ''image/png'' ''1:1'') 0,
         GenerateContent (fusion_request ''{}'' (Some ''U1VC'') ''image/png'' ''1:1'') 1,
         GenerateContent (fusion_request ''{}'' (Some ''U1VC'') ''image/png'' ''1:1'') 2,
         GenerateContent (fusion_request ''{}'' (Some ''U1VC'') ''image/png'' ''1:1'') 3]"
    unfolding ops_def c2 by (simp add: demo_ftypes demo_state_fields)
  from c1 c3 show ?thesis
    by (simp add: demo_state_fields demo_reads demo_style)
qed

text \<open>
  C3 as stated fails: the style call answers \<open>{}\<close>, a text with none of the six
  required fields, and the run reaches its second step, starts the fusion calls and
  ends with four images and no error.
\<close>

theorem style_schema_violation_reaches_fusion:
  "missing_required_field ''{}''
   \<and> generateContent schemaless_env (style_request (Some ''UkVG'') ''image/jpeg'') 0
       = Fulfilled \<lparr>response_text = ''{}'', candidates = None\<rparr>
   \<and> list_ex is_fusion_call (ops (handleGenerateClick schemaless_env demo_state))
   \<and> phase2 demo_state \<in> set (shown (handleGenerateClick schemaless_env demo_state))
   \<and> error (final (handleGenerateClick schemaless_env demo_state)) = None
   \<and> generatedImages (final (handleGenerateClick schemaless_env demo_state))
       = Some [''data:image/png;base64,SU1H0'', ''data:image/png;base64,SU1H1'',
               ''data:image/png;base64,SU1H2'', ''data:image/png;base64,SU1H3'']"
proof -
  have m: "missing_required_field ''{}''"
    by (simp add: missing_required_field_def required_fields_def mentions_field_def
          sublist_Cons_right)
  note tr = trace_handleGenerateClick [OF demo_state_fields(1,2), of schemaless_env]
  note fin = final_handleGenerateClick [OF demo_state_fields(1,2), of schemaless_env]
  have a: "list_ex is_fusion_call (ops (handleGenerateClick schemaless_env demo_state))"
    using tr by (simp add: ops_def demo_reads demo_ftypes demo_style)
  have b: "phase2 demo_state \<in> set (shown (handleGenerateClick schemaless_env demo_state))"
    using tr by (simp add: shown_def demo_reads demo_ftypes demo_style)
  have c: "final (handleGenerateClick schemaless_env demo_state) =
      finally_block ((phase2 demo_state)\<lparr>generatedImages :=
         Some (map ((@) png_prefix) [''SU1H0'', ''SU1H1'', ''SU1H2'', ''SU1H3''])\<rparr>)"
    using fin by (simp add: demo_reads demo_ftypes demo_style demo_fused)
  have d: "error (final (handleGenerateClick schemaless_env demo_state)) = None"
    unfolding c by simp
  have e: "generatedImages (final (handleGenerateClick schemaless_env demo_state))
       = Some [''data:image/png;base64,SU1H0'', ''data:image/png;base64,SU1H1'',
               ''data:image/png;base64,SU1H2'', ''data:image/png;base64,SU1H3'']"
    unfolding c by (simp add: png_prefix_def)
  from m a b d e show ?thesis by (simp add: demo_style)
qed

text \<open>
  C4.  When the reference image or the subject image is absent, a trigger of the run
  starts no operation at all (no file read, no remote call): it only sets the
  validation message, and leaves the loading flag, the progress message and the
  results as they were.
\<close>

theorem handleGenerateClick_missing_image:
  assumes "referenceImage st = None \<or> subjectImage st = None"
  shows "handleGenerateClick e st = \<lparr>final = st\<lparr>error := Some missing_image\<rparr>, trace = []\<rparr>"
  using assms by (auto simp: handleGenerateClick_def split: option.splits)

theorem handleGenerateClick_missing_image_witness:
  "(referenceImage initial_state = None \<or> subjectImage initial_state = None)
   \<and> handleGenerateClick demo_env initial_state
       = \<lparr>final = initial_state\<lparr>error := Some missing_image\<rparr>, trace = []\<rparr>
   \<and> isLoading (final (handleGenerateClick demo_env initial_state)) = False"
proof -
  have h: "referenceImage initial_state = None \<or> subjectImage initial_state = None"
    by (simp add: initial_state_def)
  show ?thesis
    using handleGenerateClick_missing_image [OF h, of demo_env] h
    by (simp add: initial_state_def)
qed

text \<open>
  C5.  A fusion call is started only after the style call has been fulfilled: whenever
  a run starts a fusion call, the style call was started earlier in the run, no fusion
  call precedes it, it was fulfilled, and the fusion call carries the text of its
  answer in its prompt.  When the style call is rejected, the run starts no fusion call.
\<close>

theorem style_extraction_precedes_fusion:
  "(call \<in> set (ops (handleGenerateClick e st)) \<and> is_fusion_call call
      \<longrightarrow> (\<exists>reference b r pre post.
             referenceImage st = Some reference
           \<and> snd (fileToBase64 e (the_file reference)) = Fulfilled b
           \<and> generateContent e (style_request b (ftype (the_file reference))) 0 = Fulfilled r
           \<and> ops (handleGenerateClick e st)
               = pre @ GenerateContent (style_request b (ftype (the_file reference))) 0 # post
           \<and> \<not> list_ex is_fusion_call pre
           \<and> (\<exists>sb m k. call = GenerateContent
                  (fusion_request (response_text r) sb m (aspectRatio st)) k)))
   \<and> (referenceImage st = Some reference
       \<and> snd (fileToBase64 e (the_file reference)) = Fulfilled b
       \<and> generateContent e (style_request b (ftype (the_file reference))) 0 = Rejected err
      \<longrightarrow> \<not> list_ex is_fusion_call (ops (handleGenerateClick e st)))"
proof (intro conjI impI)
  assume a: "call \<in> set (ops (handleGenerateClick e st)) \<and> is_fusion_call call"
  show "\<exists>reference b r pre post.
             referenceImage st = Some reference
           \<and> snd (fileToBase64 e (the_file reference)) = Fulfilled b
           \<and> generateContent e (style_request b (ftype (the_file reference))) 0 = Fulfilled r
           \<and> ops (handleGenerateClick e st)
               = pre @ GenerateContent (style_request b (ftype (the_file reference))) 0 # post
           \<and> \<not> list_ex is_fusion_call pre
           \<and> (\<exists>sb m k. call = GenerateContent
                  (fusion_request (response_text r) sb m (aspectRatio st)) k)"
  proof (cases "referenceImage st")
    case None
    then have "ops (handleGenerateClick e st) = []"
      by (simp add: handleGenerateClick_def ops_def)
    with a show ?thesis by simp
  next
    case ref: (Some reference)
    show ?thesis
    proof (cases "subjectImage st")
      case None
      then have "ops (handleGenerateClick e st) = []"
        by (simp add: handleGenerateClick_def ops_def split: option.splits)
      with a show ?thesis by simp
    next
      case subj: (Some subject)
      note tr = trace_handleGenerateClick [OF ref subj, of e]
      show ?thesis
      proof (cases "snd (fileToBase64 e (the_file reference))")
        case Pending
        with tr a show ?thesis by (auto simp: ops_def)
      next
        case (Rejected ev)
        with tr a show ?thesis by (auto simp: ops_def)
      next
        case b: (Fulfilled b)
        show ?thesis
        proof (cases "generateContent e (style_request b (ftype (the_file reference))) 0")
          case Pending
          with tr a b show ?thesis by (auto simp: ops_def)
        next
          case (Rejected err)
          with tr a b show ?thesis by (auto simp: ops_def)
        next
          case r: (Fulfilled r)
          show ?thesis
          proof (cases "snd (fileToBase64 e (the_file subject))")
            case Pending
            with tr a b r show ?thesis by (auto simp: ops_def)
          next
            case (Rejected ev)
            with tr a b r show ?thesis by (auto simp: ops_def)
          next
            case sb: (Fulfilled sb)
            let ?freq = "fusion_request (response_text r) sb (ftype (the_file subject)) (aspectRatio st)"
            have o: "ops (handleGenerateClick e st) =
                [ReadAsDataURL (the_file reference)]
                @ GenerateContent (style_request b (ftype (the_file reference))) 0
                # (ReadAsDataURL (the_file subject) # map (GenerateContent ?freq) [0, 1, 2, 3])"
              using tr b r sb by (simp add: ops_def)
            have "\<exists>k. call = GenerateContent ?freq k"
              using a unfolding o by auto
            then have c: "\<exists>sb m k. call = GenerateContent
                  (fusion_request (response_text r) sb m (aspectRatio st)) k"
              by blast
            have p: "\<not> list_ex is_fusion_call [ReadAsDataURL (the_file reference)]" by simp
            from ref b r o p c show ?thesis by blast
          qed
        qed
      qed
    qed
  qed
next
  assume a: "referenceImage st = Some reference
       \<and> snd (fileToBase64 e (the_file reference)) = Fulfilled b
       \<and> generateContent e (style_request b (ftype (the_file reference))) 0 = Rejected err"
  show "\<not> list_ex is_fusion_call (ops (handleGenerateClick e st))"
  proof (cases "subjectImage st")
    case None
    then show ?thesis
      by (simp add: handleGenerateClick_def ops_def split: option.splits)
  next
    case (Some subject)
    with a show ?thesis
      using trace_handleGenerateClick [of st reference subject e]
      by (simp add: ops_def)
  qed
qed

theorem style_extraction_precedes_fusion_witness:
  "GenerateContent (fusion_request style_json (Some ''U1VC'') ''image/png'' ''1:1'') 2
     \<in> set (ops (handleGenerateClick demo_env demo_state))
   \<and> is_fusion_call (GenerateContent (fusion_request style_json (Some ''U1VC'') ''image/png'' ''1:1'') 2)
   \<and> (\<exists>reference b r pre post.
             referenceImage demo_state = Some reference
           \<and> snd (fileToBase64 demo_env (the_file reference)) = Fulfilled b
           \<and> generateContent demo_env (style_request b (ftype (the_file reference))) 0 = Fulfilled r
           \<and> ops (handleGenerateClick demo_env demo_state)
               = pre @ GenerateContent (style_request b (ftype (the_file reference))) 0 # post
           \<and> \<not> list_ex is_fusion_call pre
           \<and> (\<exists>sb m k. GenerateContent (fusion_request style_json (Some ''U1VC'') ''image/png'' ''1:1'') 2
                  = GenerateContent (fusion_request (response_text r) sb m (aspectRatio demo_state)) k))
   \<and> referenceImage demo_state = Some \<lparr>the_file = reference_file, url = ''blob:reference.jpg''\<rparr>
   \<and> snd (fileToBase64 blocked_env reference_file) = Fulfilled (Some ''UkVG'')
   \<and> generateContent blocked_env (style_request (Some ''UkVG'') ''image/jpeg'') 0 = Rejected (Error ''blocked'')
   \<and> \<not> list_ex is_fusion_call (ops (handleGenerateClick blocked_env demo_state))"
proof -
  let ?call = "GenerateContent (fusion_request style_json (Some ''U1VC'') ''image/png'' ''1:1'') 2"
  have h1: "?call \<in> set (ops (handleGenerateClick demo_env demo_state)) \<and> is_fusion_call ?call"
    using trace_handleGenerateClick [OF demo_state_fields(1,2), of demo_env]
    by (simp add: ops_def demo_reads demo_ftypes demo_style demo_state_fields)
  have h2: "referenceImage demo_state = Some \<lparr>the_file = reference_file, url = ''blob:reference.jpg''\<rparr>
       \<and> snd (fileToBase64 blocked_env (the_file \<lparr>the_file = reference_file, url = ''blob:reference.jpg''\<rparr>))
           = Fulfilled (Some ''UkVG'')
       \<and> generateContent blocked_env (style_request (Some ''UkVG'')
             (ftype (the_file \<lparr>the_file = reference_file, url = ''blob:reference.jpg''\<rparr>))) 0
           = Rejected (Error ''blocked'')"
    by (simp add: demo_state_fields demo_reads demo_style)
  have c1: "\<exists>reference b r pre post.
             referenceImage demo_state = Some reference
           \<and> snd (fileToBase64 demo_env (the_file reference)) = Fulfilled b
           \<and> generateContent demo_env (style_request b (ftype (the_file reference))) 0 = Fulfilled r
           \<and> ops (handleGenerateClick demo_env demo_state)
               = pre @ GenerateContent (style_request b (ftype (the_file reference))) 0 # post
           \<and> \<not> list_ex is_fusion_call pre
           \<and> (\<exists>sb m k. ?call
                  = GenerateContent (fusion_request (response_text r) sb m (aspectRatio demo_state)) k)"
    by (rule style_extraction_precedes_fusion [of ?call demo_env demo_state, THEN conjunct1, THEN mp, OF h1])
  have c2: "\<not> list_ex is_fusion_call (ops (handleGenerateClick blocked_env demo_state))"
    by (rule style_extraction_precedes_fusion
          [of _ blocked_env demo_state "\<lparr>the_file = reference_file, url = ''blob:reference.jpg''\<rparr>"
              "Some ''UkVG''" "Error ''blocked''", THEN conjunct2, THEN mp, OF h2])
  from h1 h2 c1 c2 show ?thesis by (simp add: demo_ftypes)
qed

text \<open>
  C6.  When the read delivers a data URI (a header without a comma, a comma, a base64
  payload, which has no comma either), the encoder resolves with the payload alone;
  when the read fails, the encoder is rejected with the reader's error event.  The
  orchestrator sends the payload together with the media type of the file, and a
  failed read ends the run in its \<open>catch\<close> before any remote call.
\<close>

theorem fileToBase64_strips_data_uri_prefix:
  "(readAsDataURL e f = Fulfilled (header @ CHR '','' # payload)
      \<and> CHR '','' \<notin> set header \<and> CHR '','' \<notin> set payload
      \<longrightarrow> fileToBase64 e f = ([ReadAsDataURL f], Fulfilled (Some payload)))
   \<and> (readAsDataURL e f = Rejected ev
      \<longrightarrow> fileToBase64 e f = ([ReadAsDataURL f], Rejected ev))
   \<and> (referenceImage st = Some reference \<and> subjectImage st = Some subject
       \<and> snd (fileToBase64 e (the_file reference)) = Fulfilled b
      \<longrightarrow> ops (handleGenerateClick e st) ! 1
            = GenerateContent (style_request b (ftype (the_file reference))) 0
          \<and> contents (style_request b (ftype (the_file reference))) ! 0
            = InlineData \<lparr>mimeType = ftype (the_file reference), data = b\<rparr>)
   \<and> (referenceImage st = Some reference \<and> subjectImage st = Some subject
       \<and> snd (fileToBase64 e (the_file reference)) = Rejected ev
      \<longrightarrow> ops (handleGenerateClick e st) = [ReadAsDataURL (the_file reference)]
          \<and> final (handleGenerateClick e st) = catch_block ev (phase1 st))"
proof (intro conjI impI)
  assume "readAsDataURL e f = Fulfilled (header @ CHR '','' # payload)
      \<and> CHR '','' \<notin> set header \<and> CHR '','' \<notin> set payload"
  then show "fileToBase64 e f = ([ReadAsDataURL f], Fulfilled (Some payload))"
    using split_header_payload [of "CHR '',''" header payload]
    by (simp add: fileToBase64_def at_index_def)
next
  assume "readAsDataURL e f = Rejected ev"
  then show "fileToBase64 e f = ([ReadAsDataURL f], Rejected ev)"
    by (simp add: fileToBase64_def)
next
  assume a: "referenceImage st = Some reference \<and> subjectImage st = Some subject
       \<and> snd (fileToBase64 e (the_file reference)) = Fulfilled b"
  then show "ops (handleGenerateClick e st) ! 1
            = GenerateContent (style_request b (ftype (the_file reference))) 0"
    using trace_handleGenerateClick [of st reference subject e]
    by (simp add: ops_def)
  show "contents (style_request b (ftype (the_file reference))) ! 0
            = InlineData \<lparr>mimeType = ftype (the_file reference), data = b\<rparr>"
    by (simp add: style_request_def)
next
  assume a: "referenceImage st = Some reference \<and> subjectImage st = Some subject
       \<and> snd (fileToBase64 e (the_file reference)) = Rejected ev"
  then show "ops (handleGenerateClick e st) = [ReadAsDataURL (the_file reference)]"
    using trace_handleGenerateClick [of st reference subject e]
    by (simp add: ops_def)
  from a show "final (handleGenerateClick e st) = catch_block ev (phase1 st)"
    using final_handleGenerateClick [of st reference subject e]
    by simp
qed

theorem fileToBase64_strips_data_uri_prefix_witness:
  "readAsDataURL demo_env reference_file = Fulfilled (''data:image/jpeg;base64'' @ CHR '','' # ''UkVG'')
   \<and> CHR '','' \<notin> set ''data:image/jpeg;base64'' \<and> CHR '','' \<notin> set ''UkVG''
   \<and> fileToBase64 demo_env reference_file = ([ReadAsDataURL reference_file], Fulfilled (Some ''UkVG''))
   \<and> readAsDataURL unreadable_env reference_file = Rejected ProgressEvent
   \<and> fileToBase64 unreadable_env reference_file = ([ReadAsDataURL reference_file], Rejected ProgressEvent)
   \<and> ops (handleGenerateClick demo_env demo_state) ! 1
       = GenerateContent (style_request (Some ''UkVG'') ''image/jpeg'') 0
   \<and> contents (style_request (Some ''UkVG'') ''image/jpeg'') ! 0
       = InlineData \<lparr>mimeType = ''image/jpeg'', data = Some ''UkVG''\<rparr>
   \<and> ops (handleGenerateClick unreadable_env demo_state) = [ReadAsDataURL reference_file]
   \<and> error (final (handleGenerateClick unreadable_env demo_state)) = Some unknown_error"
proof -
  have h1: "readAsDataURL demo_env reference_file
              = Fulfilled (''data:image/jpeg;base64'' @ CHR '','' # ''UkVG'')
            \<and> CHR '','' \<notin> set ''data:image/jpeg;base64'' \<and> CHR '','' \<notin> set ''UkVG''"
    by (simp add: demo_defs)
  have h2: "readAsDataURL unreadable_env reference_file = Rejected ProgressEvent"
    by (simp add: demo_defs)
  have h3: "referenceImage demo_state = Some \<lparr>the_file = reference_file, url = ''blob:reference.jpg''\<rparr>
            \<and> subjectImage demo_state = Some \<lparr>the_file = subject_file, url = ''blob:subject.png''\<rparr>
            \<and> snd (fileToBase64 demo_env (the_file \<lparr>the_file = reference_file, url = ''blob:reference.jpg''\<rparr>))
                = Fulfilled (Some ''UkVG'')"
    by (simp add: demo_state_fields demo_reads)
  have h4: "referenceImage demo_state = Some \<lparr>the_file = reference_file, url = ''blob:reference.jpg''\<rparr>
            \<and> subjectImage demo_state = Some \<lparr>the_file = subject_file, url = ''blob:subject.png''\<rparr>
            \<and> snd (fileToBase64 unreadable_env (the_file \<lparr>the_file = reference_file, url = ''blob:reference.jpg''\<rparr>))
                = Rejected ProgressEvent"
    by (simp add: demo_state_fields demo_reads)
  note thm1 = fileToBase64_strips_data_uri_prefix
    [of demo_env reference_file "''data:image/jpeg;base64''" "''UkVG''" ProgressEvent demo_state
        "\<lparr>the_file = reference_file, url = ''blob:reference.jpg''\<rparr>"
        "\<lparr>the_file = subject_file, url = ''blob:subject.png''\<rparr>" "Some ''UkVG''"]
  note thm2 = fileToBase64_strips_data_uri_prefix
    [of unreadable_env reference_file "''data:image/jpeg;base64''" "''UkVG''" ProgressEvent demo_state
        "\<lparr>the_file = reference_file, url = ''blob:reference.jpg''\<rparr>"
        "\<lparr>the_file = subject_file, url = ''blob:subject.png''\<rparr>" "Some ''UkVG''"]
  have c1: "fileToBase64 demo_env reference_file = ([ReadAsDataURL reference_file], Fulfilled (Some ''UkVG''))"
    using thm1 [THEN conjunct1] h1 by simp
  have c2: "fileToBase64 unreadable_env reference_file = ([ReadAsDataURL reference_file], Rejected ProgressEvent)"
    using thm2 [THEN conjunct2, THEN conjunct1] h2 by simp
  have c3: "ops (handleGenerateClick demo_env demo_state) ! 1
       = GenerateContent (style_request (Some ''UkVG'') ''image/jpeg'') 0
     \<and> contents (style_request (Some ''UkVG'') ''image/jpeg'') ! 0
       = InlineData \<lparr>mimeType = ''image/jpeg'', data = Some ''UkVG''\<rparr>"
    using thm1 [THEN conjunct2, THEN conjunct2, THEN conjunct1] h3 by (simp add: demo_ftypes)
  have c4: "ops (handleGenerateClick unreadable_env demo_state) = [ReadAsDataURL reference_file]
     \<and> final (handleGenerateClick unreadable_env demo_state) = catch_block ProgressEvent (phase1 demo_state)"
    using thm2 [THEN conjunct2, THEN conjunct2, THEN conjunct2] h4 by simp
  then have c5: "error (final (handleGenerateClick unreadable_env demo_state)) = Some unknown_error"
    by simp
  from h1 h2 c1 c2 c3 c4 c5 show ?thesis by simp
qed




text \<open>
  C8.  A run that starts (both images present) has cleared the earlier results and
  the earlier error before its first operation: every state on display while the run
  waits has neither, and the whole run is the same whatever results and error were
  there before.  Uploading an image clears both as well.
\<close>

theorem new_run_clears_results_and_error:
  assumes "referenceImage st = Some reference" and "subjectImage st = Some subject"
  shows "shown (handleGenerateClick e st) \<noteq> []
         \<and> (\<forall>s\<in>set (shown (handleGenerateClick e st)).
               generatedImages s = None \<and> error s = None \<and> isLoading s)
         \<and> handleGenerateClick e (st\<lparr>generatedImages := g, error := x\<rparr>) = handleGenerateClick e st
         \<and> generatedImages (handleReferenceImageUpload e f st) = None
         \<and> error (handleReferenceImageUpload e f st) = None
         \<and> generatedImages (handleSubjectImageUpload e f st) = None
         \<and> error (handleSubjectImageUpload e f st) = None"
proof -
  note tr = trace_handleGenerateClick [OF assms, of e]
  have a: "shown (handleGenerateClick e st) \<noteq> []"
    using tr by (simp add: shown_def)
  have "set (shown (handleGenerateClick e st)) \<subseteq> {phase1 st, phase2 st}"
    using tr by (auto simp: shown_def split: promise.splits)
  then have b: "\<forall>s\<in>set (shown (handleGenerateClick e st)).
               generatedImages s = None \<and> error s = None \<and> isLoading s"
    by auto
  have r: "referenceImage (st\<lparr>generatedImages := g, error := x\<rparr>) = Some reference"
    and s: "subjectImage (st\<lparr>generatedImages := g, error := x\<rparr>) = Some subject"
    using assms by simp_all
  have c: "handleGenerateClick e (st\<lparr>generatedImages := g, error := x\<rparr>) = handleGenerateClick e st"
    unfolding handleGenerateClick_both [OF r s] handleGenerateClick_both [OF assms]
    by simp
  have d: "generatedImages (handleReferenceImageUpload e f st) = None
         \<and> error (handleReferenceImageUpload e f st) = None
         \<and> generatedImages (handleSubjectImageUpload e f st) = None
         \<and> error (handleSubjectImageUpload e f st) = None"
    by (simp add: handleReferenceImageUpload_def handleSubjectImageUpload_def)
  from a b c d show ?thesis by simp
qed

theorem new_run_clears_results_and_error_witness:
  "referenceImage demo_state = Some \<lparr>the_file = reference_file, url = ''blob:reference.jpg''\<rparr>
   \<and> subjectImage demo_state = Some \<lparr>the_file = subject_file, url = ''blob:subject.png''\<rparr>
   \<and> generatedImages stale_state = Some [''data:image/png;base64,b2xk'']
   \<and> error stale_state = Some ''old error''
   \<and> shown (handleGenerateClick demo_env stale_state) \<noteq> []
   \<and> list_all (\<lambda>s. generatedImages s = None \<and> error s = None \<and> isLoading s)
         (shown (handleGenerateClick demo_env stale_state))
   \<and> handleGenerateClick demo_env stale_state = handleGenerateClick demo_env demo_state
   \<and> generatedImages (handleReferenceImageUpload demo_env subject_file stale_state) = None
   \<and> error (handleReferenceImageUpload demo_env subject_file stale_state) = None"
proof -
  let ?ref = "\<lparr>the_file = reference_file, url = ''blob:reference.jpg''\<rparr>"
  let ?subj = "\<lparr>the_file = subject_file, url = ''blob:subject.png''\<rparr>"
  have r: "referenceImage stale_state = Some ?ref" and s: "subjectImage stale_state = Some ?subj"
    by (simp_all add: stale_state_def demo_state_fields)
  have old: "generatedImages stale_state = Some [''data:image/png;base64,b2xk'']
       \<and> error stale_state = Some ''old error''"
    by (simp add: stale_state_def)
  note a = new_run_clears_results_and_error
    [OF r s, where e = demo_env and g = "generatedImages stale_state"
       and x = "error stale_state" and f = subject_file]
  note b = new_run_clears_results_and_error
    [OF demo_state_fields(1,2), where e = demo_env
       and g = "Some [''data:image/png;base64,b2xk'']" and x = "Some ''old error''"
       and f = subject_file]
  have eq: "handleGenerateClick demo_env stale_state = handleGenerateClick demo_env demo_state"
    using b by (simp add: stale_state_def)
  from a eq old show ?thesis by (simp add: demo_state_fields list_all_iff)
qed

text \<open>
  C9.  A selected file whose media type does not start with \<open>image/\<close> is ignored:
  whatever the upload callback is, the state it acts on is left as it was, so the
  callback has not run and no error has been set.
\<close>

theorem handleFileChange_ignores_non_image:
  assumes "\<not> startsWith (ftype f) ''image/''"
  shows "handleFileChange onImageUpload (Some (f # fs)) st = st"
  using assms by (simp add: handleFileChange_def)

theorem handleFileChange_ignores_non_image_witness:
  "\<not> startsWith (ftype notes_file) ''image/''
   \<and> handleFileChange (\<lambda>f (s, calls). (handleReferenceImageUpload demo_env f s, f # calls))
        (Some [notes_file]) (initial_state, [])
       = (initial_state, [])"
proof -
  have h: "\<not> startsWith (ftype notes_file) ''image/''"
    by (simp add: startsWith_def notes_file_def)
  show ?thesis
    using handleFileChange_ignores_non_image [OF h] h by simp
qed

text \<open>
  C10.  When a run succeeds, the images it stores and shows are exactly the payloads
  the fusion step returned, in the same order, each behind the fixed prefix
  \<open>data:image/png;base64,\<close>, and the \<open>index\<close>-th is offered for download under the
  name \<open>ai-fused-image-\<close>, \<open>index + 1\<close>, \<open>.png\<close>.  Whatever a run stores starts with that
  prefix, and the run is the same whatever media types the remote service gave to the
  inline data it returned.
\<close>

theorem generated_images_fixed_png:
  assumes "referenceImage st = Some reference" and "subjectImage st = Some subject"
  shows "(snd (fileToBase64 e (the_file reference)) = Fulfilled b
          \<and> generateContent e (style_request b (ftype (the_file reference))) 0 = Fulfilled r
          \<and> snd (fileToBase64 e (the_file subject)) = Fulfilled sb
          \<and> snd (generateFusedImages e (response_text r) sb (ftype (the_file subject))
                   (aspectRatio st)) = Fulfilled imgs
            \<longrightarrow> generatedImages (final (handleGenerateClick e st))
                  = Some (map ((@) ''data:image/png;base64,'') imgs)
                \<and> gallery (final (handleGenerateClick e st))
                  = zip (map ((@) ''data:image/png;base64,'') imgs) [0..<length imgs]
                \<and> map (\<lambda>(src, index). handleDownload src index)
                      (gallery (final (handleGenerateClick e st)))
                  = map (\<lambda>index. \<lparr>href = ''data:image/png;base64,'' @ imgs ! index,
                                   download = ''ai-fused-image-'' @ show_nat (index + 1) @ ''.png''\<rparr>)
                      [0..<length imgs])
         \<and> (generatedImages (final (handleGenerateClick e st)) = Some srcs
            \<longrightarrow> list_all (prefix ''data:image/png;base64,'') srcs)
         \<and> (\<forall>(src, index)\<in>set (gallery (final (handleGenerateClick e st))).
               prefix ''data:image/png;base64,'' src
             \<and> href (handleDownload src index) = src
             \<and> download (handleDownload src index)
                 = ''ai-fused-image-'' @ show_nat (index + 1) @ ''.png''
             \<and> suffix ''.png'' (download (handleDownload src index)))
         \<and> handleGenerateClick (retype_env g e) st = handleGenerateClick e st"
proof -
  note fin = final_handleGenerateClick [OF assms, of e]
  have s: "snd (fileToBase64 e (the_file reference)) = Fulfilled b
          \<and> generateContent e (style_request b (ftype (the_file reference))) 0 = Fulfilled r
          \<and> snd (fileToBase64 e (the_file subject)) = Fulfilled sb
          \<and> snd (generateFusedImages e (response_text r) sb (ftype (the_file subject))
                   (aspectRatio st)) = Fulfilled imgs
            \<longrightarrow> generatedImages (final (handleGenerateClick e st))
                  = Some (map ((@) ''data:image/png;base64,'') imgs)
                \<and> gallery (final (handleGenerateClick e st))
                  = zip (map ((@) ''data:image/png;base64,'') imgs) [0..<length imgs]
                \<and> map (\<lambda>(src, index). handleDownload src index)
                      (gallery (final (handleGenerateClick e st)))
                  = map (\<lambda>index. \<lparr>href = ''data:image/png;base64,'' @ imgs ! index,
                                   download = ''ai-fused-image-'' @ show_nat (index + 1) @ ''.png''\<rparr>)
                      [0..<length imgs]"
  proof (intro impI)
    assume h: "snd (fileToBase64 e (the_file reference)) = Fulfilled b
          \<and> generateContent e (style_request b (ftype (the_file reference))) 0 = Fulfilled r
          \<and> snd (fileToBase64 e (the_file subject)) = Fulfilled sb
          \<and> snd (generateFusedImages e (response_text r) sb (ftype (the_file subject))
                   (aspectRatio st)) = Fulfilled imgs"
    let ?srcs = "map ((@) ''data:image/png;base64,'') imgs"
    have f: "final (handleGenerateClick e st)
               = finally_block ((phase2 st)\<lparr>generatedImages := Some ?srcs\<rparr>)"
      using fin h by (simp add: png_prefix_def)
    have g1: "generatedImages (final (handleGenerateClick e st)) = Some ?srcs"
      unfolding f by simp
    have g2: "gallery (final (handleGenerateClick e st)) = zip ?srcs [0..<length imgs]"
      unfolding f by (simp add: gallery_def)
    have g3: "map (\<lambda>(src, index). handleDownload src index) (zip ?srcs [0..<length imgs])
                = map (\<lambda>index. \<lparr>href = ''data:image/png;base64,'' @ imgs ! index,
                                 download = ''ai-fused-image-'' @ show_nat (index + 1) @ ''.png''\<rparr>)
                    [0..<length imgs]"
      by (rule nth_equalityI) (simp_all add: handleDownload_def)
    from g1 g2 g3 show "generatedImages (final (handleGenerateClick e st)) = Some ?srcs
                \<and> gallery (final (handleGenerateClick e st)) = zip ?srcs [0..<length imgs]
                \<and> map (\<lambda>(src, index). handleDownload src index)
                      (gallery (final (handleGenerateClick e st)))
                  = map (\<lambda>index. \<lparr>href = ''data:image/png;base64,'' @ imgs ! index,
                                   download = ''ai-fused-image-'' @ show_nat (index + 1) @ ''.png''\<rparr>)
                      [0..<length imgs]"
      by simp
  qed
  have a: "generatedImages (final (handleGenerateClick e st)) = Some srcs
            \<longrightarrow> list_all (prefix ''data:image/png;base64,'') srcs"
    unfolding fin
    by (auto simp: png_prefix_def list_all_iff split: promise.splits)
  have b: "\<forall>(src, index)\<in>set (gallery (final (handleGenerateClick e st))).
               prefix ''data:image/png;base64,'' src
             \<and> href (handleDownload src index) = src
             \<and> download (handleDownload src index)
                 = ''ai-fused-image-'' @ show_nat (index + 1) @ ''.png''
             \<and> suffix ''.png'' (download (handleDownload src index))"
  proof (cases "generatedImages (final (handleGenerateClick e st))")
    case None
    then show ?thesis by (simp add: gallery_def)
  next
    case (Some imgs)
    have "generatedImages (final (handleGenerateClick e st)) = Some imgs
            \<longrightarrow> list_all (prefix ''data:image/png;base64,'') imgs"
      unfolding fin
      by (auto simp: png_prefix_def list_all_iff split: promise.splits)
    with Some have all: "\<forall>src\<in>set imgs. prefix ''data:image/png;base64,'' src"
      by (simp add: list_all_iff)
    have "set (gallery (final (handleGenerateClick e st))) \<subseteq> set imgs \<times> UNIV"
      using Some by (auto simp: gallery_def dest: set_zip_leftD)
    with all show ?thesis
      by (auto simp: handleDownload_def suffix_def)
  qed
  have c: "handleGenerateClick (retype_env g e) st = handleGenerateClick e st"
    by (rule handleGenerateClick_retype)
  show ?thesis
    by (rule conjI [OF s conjI [OF a conjI [OF b c]]])
qed

theorem generated_images_fixed_png_witness:
  "referenceImage demo_state = Some \<lparr>the_file = reference_file, url = ''blob:reference.jpg''\<rparr>
   \<and> subjectImage demo_state = Some \<lparr>the_file = subject_file, url = ''blob:subject.png''\<rparr>
   \<and> snd (fileToBase64 demo_env reference_file) = Fulfilled (Some ''UkVG'')
   \<and> generateContent demo_env (style_request (Some ''UkVG'') ''image/jpeg'') 0
       = Fulfilled \<lparr>response_text = style_json, candidates = None\<rparr>
   \<and> snd (fileToBase64 demo_env subject_file) = Fulfilled (Some ''U1VC'')
   \<and> snd (generateFusedImages demo_env style_json (Some ''U1VC'') ''image/png'' ''1:1'')
       = Fulfilled [''SU1H0'', ''SU1H1'', ''SU1H2'', ''SU1H3'']
   \<and> inlineData (image_part ''SU1H0'') = Some \<lparr>mimeType = ''image/jpeg'', data = ''SU1H0''\<rparr>
   \<and> generatedImages (final (handleGenerateClick demo_env demo_state))
       = Some [''data:image/png;base64,SU1H0'', ''data:image/png;base64,SU1H1'',
               ''data:image/png;base64,SU1H2'', ''data:image/png;base64,SU1H3'']
   \<and> gallery (final (handleGenerateClick demo_env demo_state))
       = [(''data:image/png;base64,SU1H0'', 0), (''data:image/png;base64,SU1H1'', 1),
          (''data:image/png;base64,SU1H2'', 2), (''data:image/png;base64,SU1H3'', 3)]
   \<and> map (\<lambda>(src, index). handleDownload src index)
         (gallery (final (handleGenerateClick demo_env demo_state)))
       = [\<lparr>href = ''data:image/png;base64,SU1H0'', download = ''ai-fused-image-1.png''\<rparr>,
          \<lparr>href = ''data:image/png;base64,SU1H1'', download = ''ai-fused-image-2.png''\<rparr>,
          \<lparr>href = ''data:image/png;base64,SU1H2'', download = ''ai-fused-image-3.png''\<rparr>,
          \<lparr>href = ''data:image/png;base64,SU1H3'', download = ''ai-fused-image-4.png''\<rparr>]
   \<and> list_all (prefix ''data:image/png;base64,'')
        [''data:image/png;base64,SU1H0'', ''data:image/png;base64,SU1H1'',
         ''data:image/png;base64,SU1H2'', ''data:image/png;base64,SU1H3'']
   \<and> handleGenerateClick (retype_env (\<lambda>m. ''image/webp'') demo_env) demo_state
       = handleGenerateClick demo_env demo_state"
proof -
  let ?ref = "\<lparr>the_file = reference_file, url = ''blob:reference.jpg''\<rparr>"
  let ?subj = "\<lparr>the_file = subject_file, url = ''blob:subject.png''\<rparr>"
  let ?imgs = "[''SU1H0'', ''SU1H1'', ''SU1H2'', ''SU1H3'']"
  let ?srcs = "[''data:image/png;base64,SU1H0'', ''data:image/png;base64,SU1H1'',
               ''data:image/png;base64,SU1H2'', ''data:image/png;base64,SU1H3'']"
  note inst = generated_images_fixed_png
    [OF demo_state_fields(1,2), where e = demo_env and srcs = ?srcs
       and g = "\<lambda>m. ''image/webp''" and b = "Some ''UkVG''"
       and r = "\<lparr>response_text = style_json, candidates = None\<rparr>"
       and sb = "Some ''U1VC''" and imgs = ?imgs]
  have h: "snd (fileToBase64 demo_env (the_file ?ref)) = Fulfilled (Some ''UkVG'')
          \<and> generateContent demo_env (style_request (Some ''UkVG'') (ftype (the_file ?ref))) 0
              = Fulfilled \<lparr>response_text = style_json, candidates = None\<rparr>
          \<and> snd (fileToBase64 demo_env (the_file ?subj)) = Fulfilled (Some ''U1VC'')
          \<and> snd (generateFusedImages demo_env
                   (response_text \<lparr>response_text = style_json, candidates = None\<rparr>)
                   (Some ''U1VC'') (ftype (the_file ?subj)) (aspectRatio demo_state))
              = Fulfilled ?imgs"
    by (simp add: demo_reads demo_style demo_fused)
  note pos = inst [THEN conjunct1, THEN mp, OF h]
  have g: "generatedImages (final (handleGenerateClick demo_env demo_state)) = Some ?srcs"
    using pos [THEN conjunct1] by simp
  have gal: "gallery (final (handleGenerateClick demo_env demo_state))
       = [(''data:image/png;base64,SU1H0'', 0), (''data:image/png;base64,SU1H1'', 1),
          (''data:image/png;base64,SU1H2'', 2), (''data:image/png;base64,SU1H3'', 3)]"
    using pos [THEN conjunct2, THEN conjunct1] by (simp add: upt_conv_Cons)
  have dl: "map (\<lambda>(src, index). handleDownload src index)
         (gallery (final (handleGenerateClick demo_env demo_state)))
       = [\<lparr>href = ''data:image/png;base64,SU1H0'', download = ''ai-fused-image-1.png''\<rparr>,
          \<lparr>href = ''data:image/png;base64,SU1H1'', download = ''ai-fused-image-2.png''\<rparr>,
          \<lparr>href = ''data:image/png;base64,SU1H2'', download = ''ai-fused-image-3.png''\<rparr>,
          \<lparr>href = ''data:image/png;base64,SU1H3'', download = ''ai-fused-image-4.png''\<rparr>]"
    using pos [THEN conjunct2, THEN conjunct2] by (simp add: upt_conv_Cons show_nat.simps)
  have pre: "list_all (prefix ''data:image/png;base64,'') ?srcs"
    using inst [THEN conjunct2, THEN conjunct1] g by simp
  have re: "handleGenerateClick (retype_env (\<lambda>m. ''image/webp'') demo_env) demo_state
       = handleGenerateClick demo_env demo_state"
    using inst [THEN conjunct2, THEN conjunct2, THEN conjunct2] by simp
  have ip: "inlineData (image_part ''SU1H0'') = Some \<lparr>mimeType = ''image/jpeg'', data = ''SU1H0''\<rparr>"
    by (simp add: image_part_def)
  from g gal dl pre re ip show ?thesis
    by (simp add: demo_state_fields demo_reads demo_style demo_fused)
qed

end
